theory Spec2Isabelle
  imports Main "HOL-Library.Sublist"
begin

section \<open>Signing provider registry (SigningProviderRegistry.ts)\<close>

text \<open>
  A key type is one of the strings of the \<open>KeyType\<close> enum. A signing provider is an
  object with a \<open>keyType\<close> and its signing methods; the methods play no part in the
  registry, so a provider is its key type and a tag standing for the implementation.
\<close>

type_synonym KeyType = string

record SigningProvider =
  keyType :: KeyType
  providerImpl :: nat

text \<open>The constructor receives \<open>Array<'default' | SigningProvider>\<close>.\<close>

datatype injectedProvider = Default | Provider SigningProvider

datatype error =
    NoKeyProvider KeyType
  | HandshakeOrRequestsRequired
  | HandshakeFalseWithProtocols
  | MultiUseWithMessages
  | NoHandshakeProtocolSupported
  | HandshakeProtocolsNotSupported
  | InvitationAlreadyReceived string
  | NoServices
  | NoSupportedMessage
  | RecordNotFound string

record SigningProviderRegistry =
  signingProviders :: "SigningProvider list"

text \<open>\<open>signingProviders.filter((provider) => provider !== 'default')\<close>\<close>

definition newSigningProviderRegistry :: "injectedProvider list \<Rightarrow> SigningProviderRegistry" where
  "newSigningProviderRegistry injected =
     \<lparr>signingProviders = [p. Provider p \<leftarrow> injected]\<rparr>"

definition hasProviderForKeyType :: "SigningProviderRegistry \<Rightarrow> KeyType \<Rightarrow> bool" where
  "hasProviderForKeyType reg k =
     (let signingKeyProvider = find (\<lambda>x. keyType x = k) (signingProviders reg)
      in signingKeyProvider \<noteq> None)"

definition getProviderForKeyType :: "SigningProviderRegistry \<Rightarrow> KeyType \<Rightarrow> error + SigningProvider" where
  "getProviderForKeyType reg k =
     (let signingKeyProvider = find (\<lambda>x. keyType x = k) (signingProviders reg)
      in case signingKeyProvider of
           None \<Rightarrow> Inl (NoKeyProvider k)
         | Some p \<Rightarrow> Inr p)"

text \<open>
  \<open>Array.from(new Set(xs))\<close>: a JavaScript \<open>Set\<close> iterates in insertion order, so
  the first occurrence of each element is the one kept.
\<close>

fun arrayFromSet :: "'a list \<Rightarrow> 'a list \<Rightarrow> 'a list" where
  "arrayFromSet seen [] = rev seen"
| "arrayFromSet seen (x # xs) =
     (if x \<in> set seen then arrayFromSet seen xs else arrayFromSet (x # seen) xs)"

definition supportedKeyTypes :: "SigningProviderRegistry \<Rightarrow> KeyType list" where
  "supportedKeyTypes reg = arrayFromSet [] (map keyType (signingProviders reg))"

section \<open>Out-of-band data model (OutOfBandApi, src/unnamed/part_000)\<close>

text \<open>
  Identifiers, labels, endpoints, message types and DIDs are strings. A \<open>Key\<close> is
  stood for by its fingerprint: \<open>Key.fromFingerprint(f).fingerprint\<close> is \<open>f\<close>.
  Fields that are only carried along (goal, goal code, image URL, accept profiles,
  appended attachments) are left out: no branch of the code reads them.
\<close>

type_synonym HandshakeProtocol = string

datatype OutOfBandRole = Sender | Receiver

datatype OutOfBandState = Initial | AwaitResponse | PrepareResponse | Done

datatype OutOfBandVersion = V1 | V2

record OutOfBandDidCommService =
  svc_id :: string
  svc_serviceEndpoint :: string
  svc_recipientKeys :: "string list"
  svc_routingKeys :: "string list"

text \<open>\<open>Array<OutOfBandDidCommService | string>\<close>: an inline service or a DID.\<close>

datatype service = InlineService OutOfBandDidCommService | DidService string

record PlaintextMessage =
  msg_id :: string
  msg_type :: string
  msg_service :: "string option"

record Routing =
  rt_recipientKey :: string
  rt_routingKeys :: "string list"
  rt_endpoints :: "string list"
  rt_mediatorId :: "string option"

text \<open>
  \<open>inv_handshakeProtocols\<close> and \<open>inv_requests\<close> are \<open>undefined\<close> (\<open>None\<close>) or
  an array, which may be empty; \<open>inv_requests\<close> is what \<open>getRequests()\<close> returns and
  \<open>inv_invitationDids\<close> what the getter \<open>invitationDids\<close> returns.
\<close>

record OutOfBandInvitation =
  inv_id :: string
  inv_label :: string
  inv_services :: "service list"
  inv_handshakeProtocols :: "HandshakeProtocol list option"
  inv_requests :: "PlaintextMessage list option"
  inv_invitationDids :: "string list"

record V2OutOfBandInvitation =
  v2_id :: string
  v2_attachments :: "PlaintextMessage list"



text \<open>
  The record's tag \<open>recipientKeyFingerprints\<close> and its metadata entry
  \<open>RecipientRouting\<close> are fields here.
\<close>

record OutOfBandRecord =
  oob_id :: string
  oob_role :: OutOfBandRole
  oob_state :: OutOfBandState
  oob_outOfBandInvitation :: "OutOfBandInvitation option"
  oob_v2OutOfBandInvitation :: "V2OutOfBandInvitation option"
  oob_mediatorId :: "string option"
  oob_reusable :: bool
  oob_autoAcceptConnection :: "bool option"
  oob_alias :: "string option"
  oob_recipientKeyFingerprints :: "string list"
  oob_recipientRouting :: "Routing option"

record ConnectionRecord =
  conn_id :: string
  conn_isReady :: bool
  conn_outOfBandId :: "string option"
  conn_invitationDid :: "string option"
  conn_protocol :: "HandshakeProtocol option"

record HandshakeReusedEvent =
  ev_contextCorrelationId :: string
  ev_reuseThreadId :: string
  ev_outOfBandRecordId :: string
  ev_connectionRecordId :: string

text \<open>
  What the observable of \<open>HandshakeReused\<close> events delivers after subscription: a
  value or its completion, each with its arrival time in milliseconds since the
  subscription was made.
\<close>

datatype notification = NextEvent HandshakeReusedEvent | StreamComplete

text \<open>What the operations do to the outside, in the order they do it.\<close>

datatype effect =
    RecordSaved string
  | StateChanged string "OutOfBandState option" OutOfBandState
  | AgentMessageReceived PlaintextMessage "string option"
  | ReuseMessageSent string string
  | ConnectionCreated string HandshakeProtocol
  | ReadyWaitRegistered string int
  | RoutingRemoved "string list" string
  | RecordDeleted string
  | V2InvitationAccepted string

record world =
  w_records :: "OutOfBandRecord list"
  w_connections :: "ConnectionRecord list"
  w_log :: "effect list"
  w_uuidCount :: nat

text \<open>
  The collaborators whose code is not part of the module, as parameters: the message
  handler registry, the agent configuration, the routing service, the DID document
  service, the v2 service, the connections API, the identifiers \<open>uuid()\<close> yields,
  and what the other party will answer to a reuse message.
\<close>

record env =
  env_label :: string
  env_autoAcceptConnections :: bool
  env_contextCorrelationId :: string
  env_filterSupportedProtocolsByMessageFamilies :: "string list \<Rightarrow> string list"
  env_supportedMessageTypes :: "string list"
  env_supportsIncomingMessageType :: "string \<Rightarrow> string \<Rightarrow> bool"
  env_getRouting :: Routing
  env_resolveServicesFromDid :: "string \<Rightarrow> string list"
  env_invitationDidsOf :: "service list \<Rightarrow> string list"
  env_uuid :: "nat \<Rightarrow> string"
  env_reuseThreadId :: string
  env_handshakeReusedEvents :: "(nat \<times> notification) list"
  env_newConnectionIsReady :: bool
  env_v2Connection :: "ConnectionRecord option"

record CreateOutOfBandInvitationConfig =
  cfg_version :: "OutOfBandVersion option"
  cfg_alias :: "string option"
  cfg_label :: "string option"
  cfg_handshake :: "bool option"
  cfg_handshakeProtocols :: "HandshakeProtocol list option"
  cfg_messages :: "PlaintextMessage list option"
  cfg_multiUseInvitation :: "bool option"
  cfg_autoAcceptConnection :: "bool option"
  cfg_routing :: "Routing option"



record AcceptInvitationConfig =
  acc_autoAcceptConnection :: "bool option"
  acc_reuseConnection :: "bool option"
  acc_label :: "string option"
  acc_alias :: "string option"
  acc_routing :: "Routing option"
  acc_timeoutMs :: "int option"

section \<open>Effects and errors\<close>

text \<open>
  An operation takes the world and returns its result, a thrown error (\<open>Inl\<close>) or a
  value, with the world as it is then: what was written before a \<open>throw\<close> stays.
\<close>

type_synonym 'a io = "world \<Rightarrow> (error + 'a) \<times> world"

definition ok :: "'a \<Rightarrow> 'a io" where
  "ok x w = (Inr x, w)"

definition throw :: "error \<Rightarrow> 'a io" where
  "throw e w = (Inl e, w)"

definition thenDo :: "'a io \<Rightarrow> ('a \<Rightarrow> 'b io) \<Rightarrow> 'b io" where
  "thenDo m f w = (case m w of (Inl e, w') \<Rightarrow> (Inl e, w') | (Inr x, w') \<Rightarrow> f x w')"

definition fromResult :: "error + 'a \<Rightarrow> 'a io" where
  "fromResult r w = (r, w)"

definition emit :: "effect \<Rightarrow> unit io" where
  "emit e w = (Inr (), w\<lparr>w_log := w_log w @ [e]\<rparr>)"

definition uuid :: "env \<Rightarrow> string io" where
  "uuid env w = (Inr (env_uuid env (w_uuidCount w)), w\<lparr>w_uuidCount := Suc (w_uuidCount w)\<rparr>)"

text \<open>\<open>x ?? d\<close>\<close>

definition orElse :: "'a option \<Rightarrow> 'a \<Rightarrow> 'a" where
  "orElse x d = (case x of None \<Rightarrow> d | Some v \<Rightarrow> v)"

text \<open>A natural number in decimal, as a template literal prints it.\<close>

fun decimal :: "nat \<Rightarrow> string" where
  "decimal n =
     (if n < 10 then [''0123456789'' ! n]
      else decimal (n div 10) @ [''0123456789'' ! (n mod 10)])"

section \<open>Collaborators\<close>

text \<open>
  Modelled from the spec: \<open>OutOfBandService\<close> (persisted-record CRUD and query by
  field predicate, state-changed event emission), whose code is not in the module.
  The store is the list of persisted records; \<open>getById\<close> throws when no record has
  the identifier; \<open>updateState\<close> sets the state on the record object, writes it back
  and emits the state-changed event with the previous state.
\<close>

definition save :: "OutOfBandRecord \<Rightarrow> unit io" where
  "save r w = (Inr (), w\<lparr>w_records := w_records w @ [r], w_log := w_log w @ [RecordSaved (oob_id r)]\<rparr>)"

definition emitStateChangedEvent :: "OutOfBandRecord \<Rightarrow> OutOfBandState option \<Rightarrow> unit io" where
  "emitStateChangedEvent r previousState = emit (StateChanged (oob_id r) previousState (oob_state r))"

definition getById :: "string \<Rightarrow> OutOfBandRecord io" where
  "getById outOfBandId w =
     (case find (\<lambda>r. oob_id r = outOfBandId) (w_records w) of
        None \<Rightarrow> (Inl (RecordNotFound outOfBandId), w)
      | Some r \<Rightarrow> (Inr r, w))"

definition updateState :: "OutOfBandRecord \<Rightarrow> OutOfBandState \<Rightarrow> OutOfBandRecord io" where
  "updateState r newState w =
     (let previousState = oob_state r;
          r' = r\<lparr>oob_state := newState\<rparr>;
          w' = w\<lparr>w_records := map (\<lambda>x. if oob_id x = oob_id r then r' else x) (w_records w)\<rparr>
      in case emitStateChangedEvent r' (Some previousState) w' of (_, w'') \<Rightarrow> (Inr r', w''))"



definition serviceDeleteById :: "string \<Rightarrow> unit io" where
  "serviceDeleteById outOfBandId w =
     (Inr (), w\<lparr>w_records := filter (\<lambda>r. oob_id r \<noteq> outOfBandId) (w_records w),
                w_log := w_log w @ [RecordDeleted outOfBandId]\<rparr>)"

text \<open>
  Modelled from the spec: \<open>ConnectionsApi\<close> (relationship creation, lookup by
  invitation-derived identifier or by originating record, ready-wait). A new
  relationship gets a fresh identifier; whether it is ready at once is the
  collaborator's. The ready-wait is a promise the caller does not await: it is
  registered, and what it does later is not part of the call.
\<close>

definition findByInvitationDid :: "world \<Rightarrow> string \<Rightarrow> ConnectionRecord list" where
  "findByInvitationDid w invitationDid =
     filter (\<lambda>c. conn_invitationDid c = Some invitationDid) (w_connections w)"

definition findAllByOutOfBandId :: "world \<Rightarrow> string \<Rightarrow> ConnectionRecord list" where
  "findAllByOutOfBandId w outOfBandId =
     filter (\<lambda>c. conn_outOfBandId c = Some outOfBandId) (w_connections w)"

definition acceptOutOfBandInvitation ::
    "env \<Rightarrow> OutOfBandRecord \<Rightarrow> HandshakeProtocol \<Rightarrow> ConnectionRecord io" where
  "acceptOutOfBandInvitation env r protocol w =
     (let cid = env_uuid env (w_uuidCount w);
          c = \<lparr>conn_id = cid, conn_isReady = env_newConnectionIsReady env,
               conn_outOfBandId = Some (oob_id r),
               conn_invitationDid =
                 (case oob_outOfBandInvitation r of
                    None \<Rightarrow> None
                  | Some invitation \<Rightarrow> (case inv_invitationDids invitation of [] \<Rightarrow> None | d # _ \<Rightarrow> Some d)),
               conn_protocol = Some protocol\<rparr>
      in (Inr c, w\<lparr>w_connections := w_connections w @ [c],
                    w_log := w_log w @ [ConnectionCreated cid protocol],
                    w_uuidCount := Suc (w_uuidCount w)\<rparr>))"

definition returnWhenIsConnected :: "string \<Rightarrow> int \<Rightarrow> unit io" where
  "returnWhenIsConnected connectionId timeoutMs = emit (ReadyWaitRegistered connectionId timeoutMs)"

text \<open>
  Modelled from the spec: the v2 collaborator's accept routine (it is given the
  invitation only, not the record) and the routing service's release of routing keys.
\<close>

definition v2AcceptInvitation :: "env \<Rightarrow> V2OutOfBandInvitation \<Rightarrow> ConnectionRecord option io" where
  "v2AcceptInvitation env invitation =
     thenDo (emit (V2InvitationAccepted (v2_id invitation))) (\<lambda>_. ok (env_v2Connection env))"

definition removeRouting :: "string list \<Rightarrow> string \<Rightarrow> unit io" where
  "removeRouting recipientKeys mediatorId = emit (RoutingRemoved recipientKeys mediatorId)"

text \<open>
  Modelled from the spec: \<open>DidKey\<close>, the \<open>did:key\<close> form of a key and back, and
  \<open>convertToNewInvitation\<close>, which turns a legacy connection invitation (identifier,
  label, one inline service) into a v1 invitation asking for the legacy connection
  protocol.
\<close>

definition didKeyOf :: "string \<Rightarrow> string" where
  "didKeyOf fingerprint = ''did:key:'' @ fingerprint"

definition fingerprintOfDidKey :: "string \<Rightarrow> string" where
  "fingerprintOfDidKey did = drop 8 did"


section \<open>Protocol negotiation\<close>

definition handshakeMessageFamilies :: "string list" where
  "handshakeMessageFamilies = [''https://didcomm.org/didexchange'', ''https://didcomm.org/connections'']"

text \<open>
  \<open>p.startsWith(messageFamily)\<close> is \<open>prefix messageFamily p\<close>; the final
  \<open>filter((item) => !!item)\<close> drops \<open>undefined\<close> and the empty string.
\<close>

definition getSupportedHandshakeProtocols :: "env \<Rightarrow> error + HandshakeProtocol list" where
  "getSupportedHandshakeProtocols env =
     (let handshakeProtocols = env_filterSupportedProtocolsByMessageFamilies env handshakeMessageFamilies
      in if length handshakeProtocols = 0 then Inl NoHandshakeProtocolSupported
         else Inr (concat (map (\<lambda>messageFamily.
                 case find (\<lambda>p. prefix messageFamily p) handshakeProtocols of
                   None \<Rightarrow> []
                 | Some item \<Rightarrow> if item \<noteq> [] then [item] else [])
               handshakeMessageFamilies)))"

definition areHandshakeProtocolsSupported :: "env \<Rightarrow> HandshakeProtocol list \<Rightarrow> error + bool" where
  "areHandshakeProtocolsSupported env handshakeProtocols =
     (case getSupportedHandshakeProtocols env of
        Inl e \<Rightarrow> Inl e
      | Inr supportedProtocols \<Rightarrow> Inr (list_all (\<lambda>p. p \<in> set supportedProtocols) handshakeProtocols))"

definition assertHandshakeProtocols :: "env \<Rightarrow> HandshakeProtocol list \<Rightarrow> error + unit" where
  "assertHandshakeProtocols env handshakeProtocols =
     (case areHandshakeProtocolsSupported env handshakeProtocols of
        Inl e \<Rightarrow> Inl e
      | Inr supported \<Rightarrow>
          if \<not> supported then
            (case getSupportedHandshakeProtocols env of
               Inl e \<Rightarrow> Inl e
             | Inr supportedProtocols \<Rightarrow> Inl HandshakeProtocolsNotSupported)
          else Inr ())"

text \<open>\<open>if (!handshakeProtocol)\<close> is true for \<open>undefined\<close> and for the empty string.\<close>

definition getFirstSupportedProtocol :: "env \<Rightarrow> HandshakeProtocol list \<Rightarrow> error + HandshakeProtocol" where
  "getFirstSupportedProtocol env handshakeProtocols =
     (case getSupportedHandshakeProtocols env of
        Inl e \<Rightarrow> Inl e
      | Inr supportedProtocols \<Rightarrow>
          (case find (\<lambda>p. p \<in> set supportedProtocols) handshakeProtocols of
             None \<Rightarrow> Inl HandshakeProtocolsNotSupported
           | Some handshakeProtocol \<Rightarrow>
               if handshakeProtocol = [] then Inl HandshakeProtocolsNotSupported
               else Inr handshakeProtocol))"

section \<open>Acceptance\<close>

text \<open>
  The loop of \<open>findExistingConnection\<close> returns in its first round on every path:
  one match, several matches (a warning, then the first), or \<open>null\<close>. With no
  identifier at all the loop body never runs and the result is \<open>undefined\<close>; both
  are \<open>None\<close>.
\<close>

fun findExistingConnection :: "(string \<Rightarrow> ConnectionRecord list) \<Rightarrow> string list \<Rightarrow> ConnectionRecord option" where
  "findExistingConnection findByDid [] = None"
| "findExistingConnection findByDid (invitationDid # remaining) =
     (case findByDid invitationDid of
        [firstConnection] \<Rightarrow> Some firstConnection
      | firstConnection # _ # _ \<Rightarrow> Some firstConnection
      | [] \<Rightarrow> None)"

text \<open>
  \<open>messages.find(m => supportedMessageTypes.find(type => supportsIncomingMessageType(parse(m), type)))\<close>
\<close>

definition isSupportedMessage :: "env \<Rightarrow> PlaintextMessage \<Rightarrow> bool" where
  "isSupportedMessage env message =
     (find (\<lambda>type. env_supportsIncomingMessageType env (msg_type message) type)
           (env_supportedMessageTypes env) \<noteq> None)"

definition findSupportedMessage :: "env \<Rightarrow> PlaintextMessage list \<Rightarrow> PlaintextMessage option" where
  "findSupportedMessage env messages = find (isSupportedMessage env) messages"

definition emitWithConnection :: "env \<Rightarrow> ConnectionRecord \<Rightarrow> PlaintextMessage list \<Rightarrow> unit io" where
  "emitWithConnection env connectionRecord messages =
     (case findSupportedMessage env messages of
        None \<Rightarrow> throw NoSupportedMessage
      | Some plaintextMessage \<Rightarrow>
          emit (AgentMessageReceived plaintextMessage (Some (conn_id connectionRecord))))"

definition emitWithServices :: "env \<Rightarrow> service list \<Rightarrow> PlaintextMessage list \<Rightarrow> unit io" where
  "emitWithServices env services messages =
     (if length services = 0 then throw NoServices
      else case findSupportedMessage env messages of
             None \<Rightarrow> throw NoSupportedMessage
           | Some plaintextMessage \<Rightarrow> emit (AgentMessageReceived plaintextMessage None))"

text \<open>
  The pipe of \<open>handleHandshakeReuse\<close>, stage by stage.
  \<open>filterContextCorrelationId\<close> keeps the events of the agent's own context.
  \<open>first(predicate)\<close>, \<open>map(() => true)\<close>, \<open>timeout(15000)\<close> and
  \<open>catchError(() => of(false))\<close> together walk the notifications in arrival order: the
  timer, set at subscription, has fired for a notification arriving at 15000 ms or later
  (a timeout error, caught: false); completion before a match is the empty error,
  caught: false; a matching event gives true; no further notification means the timer
  fires.
\<close>

definition filterContextCorrelationId :: "string \<Rightarrow> (nat \<times> notification) list \<Rightarrow> (nat \<times> notification) list" where
  "filterContextCorrelationId contextCorrelationId ns =
     filter (\<lambda>(t, n). case n of
                        NextEvent e \<Rightarrow> ev_contextCorrelationId e = contextCorrelationId
                      | StreamComplete \<Rightarrow> True) ns"

fun firstValueWithin :: "nat \<Rightarrow> (HandshakeReusedEvent \<Rightarrow> bool) \<Rightarrow> (nat \<times> notification) list \<Rightarrow> bool" where
  "firstValueWithin due predicate [] = False"
| "firstValueWithin due predicate ((t, n) # rest) =
     (if due \<le> t then False
      else case n of
             StreamComplete \<Rightarrow> False
           | NextEvent e \<Rightarrow> if predicate e then True else firstValueWithin due predicate rest)"

definition reuseAcceptedPredicate :: "string \<Rightarrow> OutOfBandRecord \<Rightarrow> ConnectionRecord \<Rightarrow> HandshakeReusedEvent \<Rightarrow> bool" where
  "reuseAcceptedPredicate threadId outOfBandRecord connectionRecord event =
     (ev_reuseThreadId event = threadId \<and>
      ev_outOfBandRecordId event = oob_id outOfBandRecord \<and>
      ev_connectionRecordId event = conn_id connectionRecord)"

text \<open>
  \<open>createHandShakeReuse\<close> yields the reuse message, of which the thread identifier
  matters; the subscription is made, the message is sent on the existing connection,
  and the promise of the first matching event is returned.
\<close>

definition reuseAcceptedEvent :: "env \<Rightarrow> string \<Rightarrow> OutOfBandRecord \<Rightarrow> ConnectionRecord \<Rightarrow> bool" where
  "reuseAcceptedEvent env reuseThreadId outOfBandRecord connectionRecord =
     firstValueWithin 15000
       (reuseAcceptedPredicate reuseThreadId outOfBandRecord connectionRecord)
       (filterContextCorrelationId (env_contextCorrelationId env) (env_handshakeReusedEvents env))"

definition handleHandshakeReuse :: "env \<Rightarrow> OutOfBandRecord \<Rightarrow> ConnectionRecord \<Rightarrow> bool io" where
  "handleHandshakeReuse env outOfBandRecord connectionRecord =
     (let reuseThreadId = env_reuseThreadId env
      in thenDo (emit (ReuseMessageSent reuseThreadId (conn_id connectionRecord)))
           (\<lambda>_. ok (reuseAcceptedEvent env reuseThreadId outOfBandRecord connectionRecord)))"

text \<open>Lines 604-627: the connection an accepted invitation reuses, if any.\<close>

definition reuseExistingConnection ::
    "env \<Rightarrow> OutOfBandRecord \<Rightarrow> ConnectionRecord option \<Rightarrow> bool option \<Rightarrow> PlaintextMessage list option
       \<Rightarrow> ConnectionRecord option io" where
  "reuseExistingConnection env outOfBandRecord existingConnection reuseConnection messages =
     (case existingConnection of
        None \<Rightarrow> ok None
      | Some existing \<Rightarrow>
          if orElse reuseConnection False then
            (case messages of
               None \<Rightarrow>
                 thenDo (handleHandshakeReuse env outOfBandRecord existing)
                   (\<lambda>isHandshakeReuseSuccessful.
                      if isHandshakeReuseSuccessful then ok (Some existing) else ok None)
             | Some _ \<Rightarrow> ok (Some existing))
          else ok None)"

text \<open>Lines 631-644: a new connection with the first supported protocol of the invitation.\<close>

definition createNewConnection ::
    "env \<Rightarrow> OutOfBandRecord \<Rightarrow> HandshakeProtocol list \<Rightarrow> ConnectionRecord io" where
  "createNewConnection env outOfBandRecord handshakeProtocols =
     thenDo (fromResult (getFirstSupportedProtocol env handshakeProtocols))
       (\<lambda>handshakeProtocol. acceptOutOfBandInvitation env outOfBandRecord handshakeProtocol)"

text \<open>Lines 646-666: the requests go to a ready connection now, or a wait is registered.\<close>

definition deliverRequests ::
    "env \<Rightarrow> ConnectionRecord \<Rightarrow> PlaintextMessage list option \<Rightarrow> int \<Rightarrow> unit io" where
  "deliverRequests env connectionRecord messages timeoutMs =
     (case messages of
        None \<Rightarrow> ok ()
      | Some ms \<Rightarrow>
          if conn_isReady connectionRecord then emitWithConnection env connectionRecord ms
          else returnWhenIsConnected (conn_id connectionRecord) timeoutMs)"

text \<open>
  Lines 601-676, after the state update. An array is truthy in JavaScript, also the
  empty one: \<open>if (handshakeProtocols)\<close> and \<open>if (messages)\<close> ask whether the value
  is defined.
\<close>

definition respond ::
    "env \<Rightarrow> AcceptInvitationConfig \<Rightarrow> OutOfBandRecord \<Rightarrow> OutOfBandInvitation
       \<Rightarrow> ConnectionRecord option \<Rightarrow> (OutOfBandRecord \<times> ConnectionRecord option) io" where
  "respond env config outOfBandRecord outOfBandInvitation existingConnection =
     (let services = inv_services outOfBandInvitation;
          messages = inv_requests outOfBandInvitation;
          timeoutMs = orElse (acc_timeoutMs config) 20000
      in case inv_handshakeProtocols outOfBandInvitation of
           Some handshakeProtocols \<Rightarrow>
             thenDo (reuseExistingConnection env outOfBandRecord existingConnection
                       (acc_reuseConnection config) messages)
               (\<lambda>reused.
                  thenDo (case reused of
                            Some c \<Rightarrow> ok c
                          | None \<Rightarrow> createNewConnection env outOfBandRecord handshakeProtocols)
                    (\<lambda>connectionRecord.
                       thenDo (deliverRequests env connectionRecord messages timeoutMs)
                         (\<lambda>_. ok (outOfBandRecord, Some connectionRecord))))
         | None \<Rightarrow>
             (case messages of
                Some ms \<Rightarrow>
                  thenDo (case existingConnection of
                            Some existing \<Rightarrow> emitWithConnection env existing ms
                          | None \<Rightarrow> emitWithServices env services ms)
                    (\<lambda>_. ok (outOfBandRecord, None))
              | None \<Rightarrow> ok (outOfBandRecord, None)))"

text \<open>
  \<open>acceptInvitation\<close>. The routing the caller gives, or the one stored at reception,
  goes to the connections API with label, alias and image, which no branch reads; it is
  not followed further.
\<close>

definition acceptInvitation ::
    "env \<Rightarrow> string \<Rightarrow> AcceptInvitationConfig \<Rightarrow> (OutOfBandRecord \<times> ConnectionRecord option) io" where
  "acceptInvitation env outOfBandId config =
     thenDo (getById outOfBandId)
       (\<lambda>outOfBandRecord.
          case oob_v2OutOfBandInvitation outOfBandRecord of
            Some v2Invitation \<Rightarrow>
              thenDo (v2AcceptInvitation env v2Invitation)
                (\<lambda>connectionRecord. ok (outOfBandRecord, connectionRecord))
          | None \<Rightarrow>
              (case oob_outOfBandInvitation outOfBandRecord of
                 Some outOfBandInvitation \<Rightarrow>
                   (\<lambda>w.
                      (let existingConnection =
                             findExistingConnection (findByInvitationDid w)
                               (inv_invitationDids outOfBandInvitation)
                       in thenDo (updateState outOfBandRecord PrepareResponse)
                            (\<lambda>updated. respond env config updated outOfBandInvitation existingConnection))
                        w)
               | None \<Rightarrow> ok (outOfBandRecord, None)))"

section \<open>Creation\<close>

text \<open>\<open>xs && xs.length > 0 ? xs : undefined\<close>\<close>

definition nonEmptyOrUndefined :: "'a list option \<Rightarrow> 'a list option" where
  "nonEmptyOrUndefined xs = (case xs of None \<Rightarrow> None | Some ys \<Rightarrow> if length ys > 0 then Some ys else None)"

text \<open>Lines 218-228: the handshake protocols of the invitation to build.\<close>

definition chooseHandshakeProtocols ::
    "env \<Rightarrow> bool \<Rightarrow> HandshakeProtocol list option \<Rightarrow> error + HandshakeProtocol list option" where
  "chooseHandshakeProtocols env handshake customHandshakeProtocols =
     (if handshake then
        (case customHandshakeProtocols of
           Some custom \<Rightarrow>
             (case assertHandshakeProtocols env custom of
                Inl e \<Rightarrow> Inl e
              | Inr _ \<Rightarrow> Inr (Some custom))
         | None \<Rightarrow>
             (case getSupportedHandshakeProtocols env of
                Inl e \<Rightarrow> Inl e
              | Inr supported \<Rightarrow> Inr (Some supported)))
      else Inr None)"

definition buildServices :: "Routing \<Rightarrow> service list" where
  "buildServices routing =
     map (\<lambda>(index, endpoint).
            InlineService
              \<lparr>svc_id = ''#inline-'' @ decimal index,
               svc_serviceEndpoint = endpoint,
               svc_recipientKeys = map didKeyOf [rt_recipientKey routing],
               svc_routingKeys = map didKeyOf (rt_routingKeys routing)\<rparr>)
         (enumerate 0 (rt_endpoints routing))"

definition serviceRecipientKeys :: "service \<Rightarrow> string list" where
  "serviceRecipientKeys s = (case s of InlineService d \<Rightarrow> svc_recipientKeys d | DidService _ \<Rightarrow> [])"

text \<open>
  \<open>createInvitation\<close>. The three checks come first, in the order of the source; the
  record is saved, and the state-changed event emitted, on the last two lines only.
\<close>

definition createInvitation :: "env \<Rightarrow> CreateOutOfBandInvitationConfig \<Rightarrow> OutOfBandRecord io" where
  "createInvitation env config =
     thenDo
       (if cfg_version config = Some V2 then
          thenDo (uuid env) (\<lambda>invitationId.
          thenDo (uuid env) (\<lambda>recordId.
            ok \<lparr>oob_id = recordId, oob_role = Sender, oob_state = AwaitResponse,
                oob_outOfBandInvitation = None,
                oob_v2OutOfBandInvitation =
                  Some \<lparr>v2_id = invitationId, v2_attachments = orElse (cfg_messages config) []\<rparr>,
                oob_mediatorId = None, oob_reusable = False, oob_autoAcceptConnection = None,
                oob_alias = cfg_alias config, oob_recipientKeyFingerprints = [],
                oob_recipientRouting = None\<rparr>))
        else
          (let multiUseInvitation = orElse (cfg_multiUseInvitation config) False;
               handshake = orElse (cfg_handshake config) True;
               customHandshakeProtocols = cfg_handshakeProtocols config;
               autoAcceptConnection = orElse (cfg_autoAcceptConnection config) (env_autoAcceptConnections env);
               messages = nonEmptyOrUndefined (cfg_messages config);
               label = orElse (cfg_label config) (env_label env)
           in if \<not> handshake \<and> messages = None then throw HandshakeOrRequestsRequired
              else if \<not> handshake \<and> customHandshakeProtocols \<noteq> None then throw HandshakeFalseWithProtocols
              else if messages \<noteq> None \<and> multiUseInvitation then throw MultiUseWithMessages
              else
                thenDo (fromResult (chooseHandshakeProtocols env handshake customHandshakeProtocols))
                  (\<lambda>handshakeProtocols.
                     (let routing = orElse (cfg_routing config) (env_getRouting env);
                          services = buildServices routing
                      in thenDo (uuid env) (\<lambda>invitationId.
                         thenDo (uuid env) (\<lambda>recordId.
                           ok \<lparr>oob_id = recordId, oob_role = Sender, oob_state = AwaitResponse,
                               oob_outOfBandInvitation =
                                 Some \<lparr>inv_id = invitationId, inv_label = label, inv_services = services,
                                       inv_handshakeProtocols = handshakeProtocols,
                                       inv_requests =
                                         map_option (map (\<lambda>message. message\<lparr>msg_service := None\<rparr>)) messages,
                                       inv_invitationDids = env_invitationDidsOf env services\<rparr>,
                               oob_v2OutOfBandInvitation = None,
                               oob_mediatorId = rt_mediatorId routing,
                               oob_reusable = multiUseInvitation,
                               oob_autoAcceptConnection = Some autoAcceptConnection,
                               oob_alias = cfg_alias config,
                               oob_recipientKeyFingerprints =
                                 map fingerprintOfDidKey (concat (map serviceRecipientKeys services)),
                               oob_recipientRouting = None\<rparr>))))))
       (\<lambda>outOfBandRecord.
          thenDo (save outOfBandRecord)
            (\<lambda>_. thenDo (emitStateChangedEvent outOfBandRecord None)
                    (\<lambda>_. ok outOfBandRecord)))"

section \<open>Reception\<close>








section \<open>Deletion\<close>

definition deleteById :: "string \<Rightarrow> unit io" where
  "deleteById outOfBandId =
     thenDo (getById outOfBandId)
       (\<lambda>outOfBandRecord w.
          (let relatedConnections = findAllByOutOfBandId w outOfBandId
           in thenDo
                (case oob_mediatorId outOfBandRecord of
                   None \<Rightarrow> ok ()
                 | Some mediatorId \<Rightarrow>
                     if mediatorId \<noteq> [] \<and>
                        (length relatedConnections = 0 \<or> oob_reusable outOfBandRecord)
                     then removeRouting (oob_recipientKeyFingerprints outOfBandRecord) mediatorId
                     else ok ())
                (\<lambda>_. serviceDeleteById outOfBandId))
            w)"

section \<open>Vocabulary of the properties\<close>

text \<open>The world once \<open>updateState\<close> has set a record to \<open>PrepareResponse\<close>.\<close>

definition stateUpdated :: "world \<Rightarrow> OutOfBandRecord \<Rightarrow> world" where
  "stateUpdated w r =
     w\<lparr>w_records := map (\<lambda>x. if oob_id x = oob_id r then r\<lparr>oob_state := PrepareResponse\<rparr> else x) (w_records w),
       w_log := w_log w @ [StateChanged (oob_id r) (Some (oob_state r)) PrepareResponse]\<rparr>"

text \<open>The world once, after that, the reuse message has been sent on a connection.\<close>

definition reuseAttempted :: "env \<Rightarrow> world \<Rightarrow> OutOfBandRecord \<Rightarrow> ConnectionRecord \<Rightarrow> world" where
  "reuseAttempted env w r existing =
     (stateUpdated w r)\<lparr>w_log := w_log (stateUpdated w r) @
        [ReuseMessageSent (env_reuseThreadId env) (conn_id existing)]\<rparr>"




section \<open>An agent and its records, for the examples\<close>

definition exampleRouting :: Routing where
  "exampleRouting =
     \<lparr>rt_recipientKey = ''z6MkA'', rt_routingKeys = [], rt_endpoints = [''http://a''],
      rt_mediatorId = None\<rparr>"

text \<open>
  An agent with both handshake protocols registered, the legacy one first, which
  understands the message type \<open>offer\<close> only, and to which nobody answers.
\<close>

definition exampleEnv :: env where
  "exampleEnv =
     \<lparr>env_label = ''agent'', env_autoAcceptConnections = True,
      env_contextCorrelationId = ''ctx'',
      env_filterSupportedProtocolsByMessageFamilies =
        (\<lambda>families. [''https://didcomm.org/connections/1.0'', ''https://didcomm.org/didexchange/1.0'']),
      env_supportedMessageTypes = [''offer''],
      env_supportsIncomingMessageType = (\<lambda>incoming supported. incoming = supported),
      env_getRouting = exampleRouting,
      env_resolveServicesFromDid = (\<lambda>did. [''z6MkB'']),
      env_invitationDidsOf =
        map (\<lambda>s. case s of DidService did \<Rightarrow> did
                      | InlineService d \<Rightarrow> ''did:peer:'' @ svc_serviceEndpoint d),
      env_uuid = (\<lambda>n. ''id-'' @ decimal n),
      env_reuseThreadId = ''thread'',
      env_handshakeReusedEvents = [],
      env_newConnectionIsReady = False,
      env_v2Connection = None\<rparr>"

text \<open>
  The same agent when the other party answers the reuse message after 120 ms; an
  event of another context, otherwise matching, comes first.
\<close>

definition answeringEnv :: env where
  "answeringEnv =
     exampleEnv\<lparr>env_handshakeReusedEvents :=
       [(10, NextEvent \<lparr>ev_contextCorrelationId = ''other'', ev_reuseThreadId = ''thread'',
                        ev_outOfBandRecordId = ''oob'', ev_connectionRecordId = ''conn''\<rparr>),
        (120, NextEvent \<lparr>ev_contextCorrelationId = ''ctx'', ev_reuseThreadId = ''thread'',
                         ev_outOfBandRecordId = ''oob'', ev_connectionRecordId = ''conn''\<rparr>)]\<rparr>"

definition offer :: PlaintextMessage where
  "offer = \<lparr>msg_id = ''m1'', msg_type = ''offer'', msg_service = None\<rparr>"

definition unknownRequest :: PlaintextMessage where
  "unknownRequest = \<lparr>msg_id = ''m0'', msg_type = ''unknown'', msg_service = None\<rparr>"

definition exampleInvitation ::
    "HandshakeProtocol list option \<Rightarrow> PlaintextMessage list option \<Rightarrow> service list \<Rightarrow> OutOfBandInvitation" where
  "exampleInvitation handshakeProtocols requests services =
     \<lparr>inv_id = ''inv'', inv_label = ''inviter'', inv_services = services,
      inv_handshakeProtocols = handshakeProtocols, inv_requests = requests,
      inv_invitationDids = [''did:a'', ''did:b'']\<rparr>"

definition exampleRecord :: "OutOfBandInvitation \<Rightarrow> OutOfBandRecord" where
  "exampleRecord invitation =
     \<lparr>oob_id = ''oob'', oob_role = Receiver, oob_state = Initial,
      oob_outOfBandInvitation = Some invitation, oob_v2OutOfBandInvitation = None,
      oob_mediatorId = None, oob_reusable = False, oob_autoAcceptConnection = Some True,
      oob_alias = None, oob_recipientKeyFingerprints = [''z6MkB''],
      oob_recipientRouting = None\<rparr>"

definition exampleV2Record :: OutOfBandRecord where
  "exampleV2Record =
     \<lparr>oob_id = ''oob'', oob_role = Receiver, oob_state = Initial,
      oob_outOfBandInvitation = None,
      oob_v2OutOfBandInvitation = Some \<lparr>v2_id = ''inv'', v2_attachments = []\<rparr>,
      oob_mediatorId = None, oob_reusable = False, oob_autoAcceptConnection = Some True,
      oob_alias = None, oob_recipientKeyFingerprints = [], oob_recipientRouting = None\<rparr>"

definition exampleConnection :: "bool \<Rightarrow> ConnectionRecord" where
  "exampleConnection ready =
     \<lparr>conn_id = ''conn'', conn_isReady = ready, conn_outOfBandId = Some ''oob'',
      conn_invitationDid = Some ''did:a'', conn_protocol = Some ''https://didcomm.org/connections/1.0''\<rparr>"

definition exampleWorld :: "OutOfBandRecord list \<Rightarrow> ConnectionRecord list \<Rightarrow> world" where
  "exampleWorld records connections =
     \<lparr>w_records = records, w_connections = connections, w_log = [], w_uuidCount = 0\<rparr>"

definition noAcceptConfig :: AcceptInvitationConfig where
  "noAcceptConfig =
     \<lparr>acc_autoAcceptConnection = None, acc_reuseConnection = None, acc_label = None,
      acc_alias = None, acc_routing = None, acc_timeoutMs = None\<rparr>"

definition noCreateConfig :: CreateOutOfBandInvitationConfig where
  "noCreateConfig =
     \<lparr>cfg_version = None, cfg_alias = None, cfg_label = None, cfg_handshake = None,
      cfg_handshakeProtocols = None, cfg_messages = None, cfg_multiUseInvitation = None,
      cfg_autoAcceptConnection = None, cfg_routing = None\<rparr>"



section \<open>Registry properties\<close>

lemma set_arrayFromSet: "set (arrayFromSet seen xs) = set seen \<union> set xs"
  by (induction xs arbitrary: seen) auto

lemma distinct_arrayFromSet: "distinct seen \<Longrightarrow> distinct (arrayFromSet seen xs)"
  by (induction xs arbitrary: seen) auto

lemma find_keyType_Some:
  "find (\<lambda>x. keyType x = k) ps = Some p \<Longrightarrow> p \<in> set ps \<and> keyType p = k"
  by (induction ps) (auto split: if_splits)

lemma find_keyType_None:
  "find (\<lambda>x. keyType x = k) ps = None \<longleftrightarrow> k \<notin> keyType ` set ps"
  by (induction ps) auto

text \<open>
  C10. For every key type \<open>k\<close>, \<open>getProviderForKeyType\<close> throws exactly when
  \<open>hasProviderForKeyType\<close> is false; when it is true, the provider returned is a
  registered one whose key type is \<open>k\<close>, and \<open>k\<close> is among \<open>supportedKeyTypes\<close>.
\<close>

theorem C10_registry_lookup:
  "(isl (getProviderForKeyType reg k) \<longleftrightarrow> \<not> hasProviderForKeyType reg k) \<and>
   (hasProviderForKeyType reg k \<longrightarrow>
      (\<exists>p. getProviderForKeyType reg k = Inr p \<and> p \<in> set (signingProviders reg) \<and> keyType p = k) \<and>
      k \<in> set (supportedKeyTypes reg))"
proof (cases "find (\<lambda>x. keyType x = k) (signingProviders reg)")
  case None
  then show ?thesis
    by (simp add: getProviderForKeyType_def hasProviderForKeyType_def)
next
  case (Some p)
  then have mem: "p \<in> set (signingProviders reg) \<and> keyType p = k"
    by (rule find_keyType_Some)
  then have "k \<in> set (supportedKeyTypes reg)"
    by (auto simp: supportedKeyTypes_def set_arrayFromSet)
  with Some mem show ?thesis
    by (simp add: getProviderForKeyType_def hasProviderForKeyType_def)
qed

theorem C10_registry_lookup_witness:
  "hasProviderForKeyType
     (newSigningProviderRegistry
        [Default, Provider \<lparr>keyType = ''ed25519'', providerImpl = 1\<rparr>,
         Provider \<lparr>keyType = ''ed25519'', providerImpl = 2\<rparr>]) ''ed25519'' \<and>
   getProviderForKeyType
     (newSigningProviderRegistry
        [Default, Provider \<lparr>keyType = ''ed25519'', providerImpl = 1\<rparr>,
         Provider \<lparr>keyType = ''ed25519'', providerImpl = 2\<rparr>]) ''ed25519''
     = Inr \<lparr>keyType = ''ed25519'', providerImpl = 1\<rparr> \<and>
   ''ed25519'' \<in> set (supportedKeyTypes
     (newSigningProviderRegistry
        [Default, Provider \<lparr>keyType = ''ed25519'', providerImpl = 1\<rparr>,
         Provider \<lparr>keyType = ''ed25519'', providerImpl = 2\<rparr>]))"
proof -
  let ?reg = "newSigningProviderRegistry
        [Default, Provider \<lparr>keyType = ''ed25519'', providerImpl = 1\<rparr>,
         Provider \<lparr>keyType = ''ed25519'', providerImpl = 2\<rparr>]"
  have h: "hasProviderForKeyType ?reg ''ed25519''"
    by (simp add: hasProviderForKeyType_def newSigningProviderRegistry_def)
  have g: "getProviderForKeyType ?reg ''ed25519'' = Inr \<lparr>keyType = ''ed25519'', providerImpl = 1\<rparr>"
    by (simp add: getProviderForKeyType_def newSigningProviderRegistry_def)
  from h C10_registry_lookup [of ?reg "''ed25519''"] g show ?thesis
    by blast
qed

section \<open>Protocol selection\<close>

lemma supported_nonempty:
  "getSupportedHandshakeProtocols env = Inr supported \<Longrightarrow> p \<in> set supported \<Longrightarrow> p \<noteq> []"
  by (auto simp: getSupportedHandshakeProtocols_def Let_def split: if_splits option.splits)

text \<open>
  C6. Given the handshake protocols an invitation declares, the one selected is the
  first entry, in the invitation's order, that is among the locally supported
  protocols; two agents supporting the same protocols in different preference orders
  select the same one; and when no entry is supported the selection fails: with the
  error that the protocols are not supported, or, for an agent with no handshake
  protocol at all, with the error that none is supported.
\<close>

theorem C6_first_supported_protocol:
  "(\<forall>supported p. getSupportedHandshakeProtocols env = Inr supported \<longrightarrow>
      (getFirstSupportedProtocol env H = Inr p \<longleftrightarrow>
         (\<exists>i < length H. H ! i = p \<and> p \<in> set supported \<and> (\<forall>j < i. H ! j \<notin> set supported)))) \<and>
   (\<forall>supported. getSupportedHandshakeProtocols env = Inr supported \<and> (\<forall>q \<in> set H. q \<notin> set supported) \<longrightarrow>
      getFirstSupportedProtocol env H = Inl HandshakeProtocolsNotSupported) \<and>
   (\<forall>e. getSupportedHandshakeProtocols env = Inl e \<longrightarrow>
      e = NoHandshakeProtocolSupported \<and> getFirstSupportedProtocol env H = Inl e) \<and>
   (\<forall>env' supported supported'. getSupportedHandshakeProtocols env = Inr supported \<and>
      getSupportedHandshakeProtocols env' = Inr supported' \<and> set supported = set supported' \<longrightarrow>
      getFirstSupportedProtocol env' H = getFirstSupportedProtocol env H)"
proof (intro conjI allI impI)
  fix supported p
  assume s: "getSupportedHandshakeProtocols env = Inr supported"
  show "getFirstSupportedProtocol env H = Inr p \<longleftrightarrow>
         (\<exists>i < length H. H ! i = p \<and> p \<in> set supported \<and> (\<forall>j < i. H ! j \<notin> set supported))"
  proof (cases "find (\<lambda>p. p \<in> set supported) H")
    case None
    with s have "getFirstSupportedProtocol env H = Inl HandshakeProtocolsNotSupported"
      by (simp add: getFirstSupportedProtocol_def)
    moreover from None have "\<forall>q \<in> set H. q \<notin> set supported"
      by (simp add: find_None_iff)
    ultimately show ?thesis by auto
  next
    case (Some q)
    then have q: "q \<in> set supported" by (auto simp: find_Some_iff)
    with s have "q \<noteq> []" by (rule supported_nonempty)
    with Some s have "getFirstSupportedProtocol env H = Inr q"
      by (simp add: getFirstSupportedProtocol_def)
    moreover from Some have "(\<exists>i < length H. H ! i = p \<and> p \<in> set supported \<and> (\<forall>j < i. H ! j \<notin> set supported)) \<longleftrightarrow> q = p"
      by (auto simp: find_Some_iff) (metis nat_neq_iff)
    ultimately show ?thesis by auto
  qed
next
  fix supported
  assume "getSupportedHandshakeProtocols env = Inr supported \<and> (\<forall>q \<in> set H. q \<notin> set supported)"
  then have "getSupportedHandshakeProtocols env = Inr supported"
    and "find (\<lambda>p. p \<in> set supported) H = None"
    by (simp_all add: find_None_iff)
  then show "getFirstSupportedProtocol env H = Inl HandshakeProtocolsNotSupported"
    by (simp add: getFirstSupportedProtocol_def)
next
  fix e
  assume "getSupportedHandshakeProtocols env = Inl e"
  then show "e = NoHandshakeProtocolSupported"
    by (auto simp: getSupportedHandshakeProtocols_def Let_def split: if_splits)
next
  fix e
  assume "getSupportedHandshakeProtocols env = Inl e"
  then show "getFirstSupportedProtocol env H = Inl e"
    by (simp add: getFirstSupportedProtocol_def)
next
  fix env' supported supported'
  assume "getSupportedHandshakeProtocols env = Inr supported \<and>
      getSupportedHandshakeProtocols env' = Inr supported' \<and> set supported = set supported'"
  then show "getFirstSupportedProtocol env' H = getFirstSupportedProtocol env H"
    by (simp add: getFirstSupportedProtocol_def)
qed

theorem C6_first_supported_protocol_witness:
  "getSupportedHandshakeProtocols exampleEnv =
     Inr [''https://didcomm.org/didexchange/1.0'', ''https://didcomm.org/connections/1.0''] \<and>
   getFirstSupportedProtocol exampleEnv
     [''https://didcomm.org/connections/1.0'', ''https://didcomm.org/didexchange/1.0'']
     = Inr ''https://didcomm.org/connections/1.0'' \<and>
   getFirstSupportedProtocol exampleEnv [''https://didcomm.org/connections/2.0'']
     = Inl HandshakeProtocolsNotSupported"
proof -
  let ?supported = "[''https://didcomm.org/didexchange/1.0'', ''https://didcomm.org/connections/1.0'']"
  let ?H = "[''https://didcomm.org/connections/1.0'', ''https://didcomm.org/didexchange/1.0'']"
  have s: "getSupportedHandshakeProtocols exampleEnv = Inr ?supported"
    by (simp add: getSupportedHandshakeProtocols_def exampleEnv_def handshakeMessageFamilies_def)
  have i: "\<exists>i < length ?H. ?H ! i = ''https://didcomm.org/connections/1.0'' \<and>
             ''https://didcomm.org/connections/1.0'' \<in> set ?supported \<and>
             (\<forall>j < i. ?H ! j \<notin> set ?supported)"
    by (rule exI [of _ 0]) simp
  have n: "\<forall>q \<in> set [''https://didcomm.org/connections/2.0'']. q \<notin> set ?supported"
    by simp
  from C6_first_supported_protocol [of exampleEnv ?H] s i
  have a: "getFirstSupportedProtocol exampleEnv ?H = Inr ''https://didcomm.org/connections/1.0''"
    by blast
  from C6_first_supported_protocol [of exampleEnv "[''https://didcomm.org/connections/2.0'']"] s n
  have b: "getFirstSupportedProtocol exampleEnv [''https://didcomm.org/connections/2.0'']
             = Inl HandshakeProtocolsNotSupported"
    by blast
  from s a b show ?thesis by simp
qed

section \<open>Lookup of an existing connection\<close>

text \<open>
  C9. For an invitation with several invitation-derived identifiers, the lookup asks
  for the connections of the first identifier only and returns: the first connection
  found for it (also when there are several), or nothing. The other identifiers, and
  the connections recorded for them, have no influence on the result.
\<close>

theorem C9_find_existing_connection:
  "findExistingConnection f (d # ds) = (case f d of [] \<Rightarrow> None | c # _ \<Rightarrow> Some c) \<and>
   (\<forall>g ds'. g d = f d \<longrightarrow> findExistingConnection g (d # ds') = findExistingConnection f (d # ds))"
  by (auto split: list.splits)

theorem C9_find_existing_connection_witness:
  "findExistingConnection
     (findByInvitationDid (exampleWorld [] [exampleConnection True\<lparr>conn_invitationDid := Some ''did:b''\<rparr>]))
     [''did:a'', ''did:b''] = None \<and>
   findExistingConnection (findByInvitationDid (exampleWorld [] [])) [''did:a'']
     = findExistingConnection
         (findByInvitationDid (exampleWorld [] [exampleConnection True\<lparr>conn_invitationDid := Some ''did:b''\<rparr>]))
         [''did:a'', ''did:b'']"
proof -
  let ?w = "exampleWorld [] [exampleConnection True\<lparr>conn_invitationDid := Some ''did:b''\<rparr>]"
  have q: "findByInvitationDid (exampleWorld [] []) ''did:a'' = findByInvitationDid ?w ''did:a''"
    by (simp add: findByInvitationDid_def exampleWorld_def exampleConnection_def)
  have e: "findByInvitationDid ?w ''did:a'' = []"
    by (simp add: findByInvitationDid_def exampleWorld_def exampleConnection_def)
  from C9_find_existing_connection [of "findByInvitationDid ?w" "''did:a''" "[''did:b'']"] q e
  show ?thesis by (metis list.simps(4))
qed

section \<open>Deletion\<close>

lemma find_oob_id: "find (\<lambda>x. oob_id x = i) rs = Some r \<Longrightarrow> oob_id r = i"
  by (auto simp: find_Some_iff)

lemma find_filter_other: "find (\<lambda>x. oob_id x = i) (filter (\<lambda>x. oob_id x \<noteq> i) rs) = None"
  by (simp add: find_None_iff)

text \<open>
  C7. Deleting a stored record releases the routing keys held at the mediator, in
  one call, exactly when the record has a mediator identifier (a non-empty one: the
  test is JavaScript's truthiness) and either no connection depends on the record or
  the record is reusable; a record that is not reusable and has a dependent connection
  releases nothing; the record is deleted in every case.
\<close>

theorem C7_delete_by_id:
  assumes "find (\<lambda>x. oob_id x = outOfBandId) (w_records w) = Some r"
  shows "\<exists>released.
           deleteById outOfBandId w =
             (Inr (), w\<lparr>w_records := filter (\<lambda>x. oob_id x \<noteq> outOfBandId) (w_records w),
                       w_log := w_log w @ released @ [RecordDeleted outOfBandId]\<rparr>) \<and>
           find (\<lambda>x. oob_id x = outOfBandId) (w_records (snd (deleteById outOfBandId w))) = None \<and>
           (released \<noteq> [] \<longleftrightarrow>
              (\<exists>m. oob_mediatorId r = Some m \<and> m \<noteq> []) \<and>
              (findAllByOutOfBandId w outOfBandId = [] \<or> oob_reusable r)) \<and>
           (released \<noteq> [] \<longrightarrow>
              released = [RoutingRemoved (oob_recipientKeyFingerprints r) (the (oob_mediatorId r))]) \<and>
           (\<not> oob_reusable r \<and> findAllByOutOfBandId w outOfBandId \<noteq> [] \<longrightarrow> released = [])"
proof -
  let ?released =
    "case oob_mediatorId r of
       None \<Rightarrow> []
     | Some m \<Rightarrow>
         if m \<noteq> [] \<and> (findAllByOutOfBandId w outOfBandId = [] \<or> oob_reusable r)
         then [RoutingRemoved (oob_recipientKeyFingerprints r) m] else []"
  have d: "deleteById outOfBandId w =
             (Inr (), w\<lparr>w_records := filter (\<lambda>x. oob_id x \<noteq> outOfBandId) (w_records w),
                       w_log := w_log w @ ?released @ [RecordDeleted outOfBandId]\<rparr>)"
    using assms
    by (simp add: deleteById_def getById_def thenDo_def Let_def removeRouting_def emit_def
        ok_def serviceDeleteById_def split: option.splits)
  have f: "find (\<lambda>x. oob_id x = outOfBandId) (w_records (snd (deleteById outOfBandId w))) = None"
    by (simp add: d find_filter_other)
  have c: "(?released \<noteq> [] \<longleftrightarrow>
              (\<exists>m. oob_mediatorId r = Some m \<and> m \<noteq> []) \<and>
              (findAllByOutOfBandId w outOfBandId = [] \<or> oob_reusable r))"
    by (simp split: option.splits)
  have o: "?released \<noteq> [] \<longrightarrow>
              ?released = [RoutingRemoved (oob_recipientKeyFingerprints r) (the (oob_mediatorId r))]"
    by (simp split: option.splits)
  have n: "\<not> oob_reusable r \<and> findAllByOutOfBandId w outOfBandId \<noteq> [] \<longrightarrow> ?released = []"
    by (simp split: option.splits)
  from d f c o n show ?thesis by blast
qed

theorem C7_delete_by_id_witness:
  "deleteById ''oob''
     (exampleWorld [(exampleRecord (exampleInvitation None None []))\<lparr>oob_mediatorId := Some ''mediator''\<rparr>] [])
   = (Inr (), \<lparr>w_records = [], w_connections = [],
               w_log = [RoutingRemoved [''z6MkB''] ''mediator'', RecordDeleted ''oob''],
               w_uuidCount = 0\<rparr>) \<and>
   deleteById ''oob''
     (exampleWorld [(exampleRecord (exampleInvitation None None []))\<lparr>oob_mediatorId := Some ''mediator''\<rparr>]
        [exampleConnection True])
   = (Inr (), \<lparr>w_records = [], w_connections = [exampleConnection True],
               w_log = [RecordDeleted ''oob''], w_uuidCount = 0\<rparr>)"
proof -
  let ?r = "(exampleRecord (exampleInvitation None None []))\<lparr>oob_mediatorId := Some ''mediator''\<rparr>"
  have f0: "find (\<lambda>x. oob_id x = ''oob'') (w_records (exampleWorld [?r] [])) = Some ?r"
    by (simp add: exampleWorld_def exampleRecord_def)
  have f1: "find (\<lambda>x. oob_id x = ''oob'') (w_records (exampleWorld [?r] [exampleConnection True])) = Some ?r"
    by (simp add: exampleWorld_def exampleRecord_def)
  have r0: "findAllByOutOfBandId (exampleWorld [?r] []) ''oob'' = []"
    by (simp add: findAllByOutOfBandId_def exampleWorld_def)
  have r1: "findAllByOutOfBandId (exampleWorld [?r] [exampleConnection True]) ''oob'' \<noteq> []"
    by (simp add: findAllByOutOfBandId_def exampleWorld_def exampleConnection_def)
  have a: "deleteById ''oob'' (exampleWorld [?r] [])
     = (Inr (), \<lparr>w_records = [], w_connections = [],
               w_log = [RoutingRemoved [''z6MkB''] ''mediator'', RecordDeleted ''oob''],
               w_uuidCount = 0\<rparr>)"
    using C7_delete_by_id [OF f0] r0
    by (auto simp: exampleWorld_def exampleRecord_def)
  have b: "deleteById ''oob'' (exampleWorld [?r] [exampleConnection True])
     = (Inr (), \<lparr>w_records = [], w_connections = [exampleConnection True],
               w_log = [RecordDeleted ''oob''], w_uuidCount = 0\<rparr>)"
    using C7_delete_by_id [OF f1] r1
    by (auto simp: exampleWorld_def exampleRecord_def)
  from a b show ?thesis by simp
qed

section \<open>Acceptance: the state update\<close>

lemmas io_defs = thenDo_def ok_def throw_def emit_def fromResult_def uuid_def orElse_def Let_def

lemmas accept_defs =
  io_defs acceptInvitation_def getById_def updateState_def emitStateChangedEvent_def
  v2AcceptInvitation_def respond_def reuseExistingConnection_def handleHandshakeReuse_def
  createNewConnection_def acceptOutOfBandInvitation_def deliverRequests_def
  emitWithConnection_def emitWithServices_def returnWhenIsConnected_def
  findByInvitationDid_def findSupportedMessage_def isSupportedMessage_def

lemmas example_defs =
  exampleWorld_def exampleRecord_def exampleV2Record_def exampleInvitation_def
  exampleConnection_def noAcceptConfig_def offer_def unknownRequest_def

lemma exampleEnv_simps:
  "env_supportedMessageTypes exampleEnv = [''offer'']"
  "env_supportsIncomingMessageType exampleEnv a b = (a = b)"
  "env_uuid exampleEnv n = ''id-'' @ decimal n"
  "env_reuseThreadId exampleEnv = ''thread''"
  "env_contextCorrelationId exampleEnv = ''ctx''"
  "env_handshakeReusedEvents exampleEnv = []"
  "env_newConnectionIsReady exampleEnv = False"
  "env_v2Connection exampleEnv = None"
  "env_label exampleEnv = ''agent''"
  "env_resolveServicesFromDid exampleEnv d = [''z6MkB'']"
  by (simp_all add: exampleEnv_def)

lemma exampleEnv_supported:
  "getSupportedHandshakeProtocols exampleEnv =
     Inr [''https://didcomm.org/didexchange/1.0'', ''https://didcomm.org/connections/1.0'']"
  by (simp add: getSupportedHandshakeProtocols_def exampleEnv_def handshakeMessageFamilies_def)

lemma find_after_update:
  "find (\<lambda>x. oob_id x = i) rs = Some r \<Longrightarrow> oob_id r' = i \<Longrightarrow>
   find (\<lambda>x. oob_id x = i) (map (\<lambda>x. if oob_id x = i then r' else x) rs) = Some r'"
  by (induction rs) (auto split: if_splits)

lemma acceptInvitation_v1:
  assumes "find (\<lambda>x. oob_id x = oid) (w_records w) = Some r"
    and "oob_v2OutOfBandInvitation r = None"
    and "oob_outOfBandInvitation r = Some invitation"
  shows "acceptInvitation env oid cfg w =
           respond env cfg (r\<lparr>oob_state := PrepareResponse\<rparr>) invitation
             (findExistingConnection (findByInvitationDid w) (inv_invitationDids invitation))
             (stateUpdated w r)"
  using assms
  by (simp add: acceptInvitation_def getById_def thenDo_def updateState_def Let_def
      emitStateChangedEvent_def emit_def stateUpdated_def)

lemma acceptInvitation_v2:
  assumes "find (\<lambda>x. oob_id x = oid) (w_records w) = Some r"
    and "oob_v2OutOfBandInvitation r = Some v2"
  shows "acceptInvitation env oid cfg w =
           (Inr (r, env_v2Connection env), w\<lparr>w_log := w_log w @ [V2InvitationAccepted (v2_id v2)]\<rparr>)"
  using assms
  by (simp add: acceptInvitation_def getById_def thenDo_def v2AcceptInvitation_def emit_def ok_def)

lemma respond_extends:
  "respond env cfg r invitation ex w = (res, w') \<Longrightarrow>
   w_records w' = w_records w \<and> (\<exists>new. w_log w' = w_log w @ new) \<and>
   (\<forall>r' c. res = Inr (r', c) \<longrightarrow> r' = r)"
  by (auto simp: respond_def Let_def thenDo_def ok_def throw_def emit_def fromResult_def
      reuseExistingConnection_def handleHandshakeReuse_def createNewConnection_def
      acceptOutOfBandInvitation_def deliverRequests_def emitWithConnection_def
      emitWithServices_def returnWhenIsConnected_def
      split: option.splits sum.splits if_splits prod.splits)

lemma stateUpdated_find:
  assumes "find (\<lambda>x. oob_id x = oid) (w_records w) = Some r"
  shows "find (\<lambda>x. oob_id x = oid) (w_records (stateUpdated w r)) = Some (r\<lparr>oob_state := PrepareResponse\<rparr>)"
proof -
  from assms have i: "oob_id r = oid" by (rule find_oob_id)
  from assms have "find (\<lambda>x. oob_id x = oid)
      (map (\<lambda>x. if oob_id x = oid then r\<lparr>oob_state := PrepareResponse\<rparr> else x) (w_records w))
      = Some (r\<lparr>oob_state := PrepareResponse\<rparr>)"
    by (rule find_after_update) (simp add: i)
  then show ?thesis by (simp add: stateUpdated_def i)
qed

text \<open>
  C1, as the code has it. Accepting a stored record that holds a v1 invitation sets
  the record to \<open>PrepareResponse\<close> before anything else is done to the outside: the
  state-changed event is the first effect of the call, ahead of reuse handling,
  handshake creation and connectionless dispatch, and the stored record and the
  returned one are in that state whatever the branch and whether it fails or not. A
  record that holds a v2 invitation is handed to the v2 service and returned as it was:
  its state is not touched.
\<close>

theorem C1_state_updated_before_branching:
  assumes "find (\<lambda>x. oob_id x = oid) (w_records w) = Some r"
    and "acceptInvitation env oid cfg w = (res, w')"
  shows "(oob_v2OutOfBandInvitation r = None \<and> oob_outOfBandInvitation r \<noteq> None \<longrightarrow>
            (\<exists>rest. w_log w' = w_log w @ StateChanged oid (Some (oob_state r)) PrepareResponse # rest) \<and>
            find (\<lambda>x. oob_id x = oid) (w_records w') = Some (r\<lparr>oob_state := PrepareResponse\<rparr>) \<and>
            (\<forall>r' c. res = Inr (r', c) \<longrightarrow> oob_state r' = PrepareResponse)) \<and>
         (oob_v2OutOfBandInvitation r \<noteq> None \<longrightarrow>
            w_records w' = w_records w \<and>
            (\<exists>v2. w_log w' = w_log w @ [V2InvitationAccepted v2]) \<and>
            res = Inr (r, env_v2Connection env))"
proof (intro conjI impI)
  assume "oob_v2OutOfBandInvitation r = None \<and> oob_outOfBandInvitation r \<noteq> None"
  then obtain invitation where v: "oob_v2OutOfBandInvitation r = None"
    and i: "oob_outOfBandInvitation r = Some invitation" by auto
  from assms(1) have oid: "oob_id r = oid" by (rule find_oob_id)
  from assms v i have "respond env cfg (r\<lparr>oob_state := PrepareResponse\<rparr>) invitation
             (findExistingConnection (findByInvitationDid w) (inv_invitationDids invitation))
             (stateUpdated w r) = (res, w')"
    by (simp add: acceptInvitation_v1)
  from respond_extends [OF this]
  have rec: "w_records w' = w_records (stateUpdated w r)"
    and lg: "\<exists>new. w_log w' = w_log (stateUpdated w r) @ new"
    and ret: "\<forall>r' c. res = Inr (r', c) \<longrightarrow> r' = r\<lparr>oob_state := PrepareResponse\<rparr>"
    by blast+
  from lg oid show "\<exists>rest. w_log w' = w_log w @ StateChanged oid (Some (oob_state r)) PrepareResponse # rest"
    by (auto simp: stateUpdated_def)
  from rec stateUpdated_find [OF assms(1)]
  show "find (\<lambda>x. oob_id x = oid) (w_records w') = Some (r\<lparr>oob_state := PrepareResponse\<rparr>)"
    by simp
  from ret show "\<forall>r' c. res = Inr (r', c) \<longrightarrow> oob_state r' = PrepareResponse"
    by auto
next
  assume "oob_v2OutOfBandInvitation r \<noteq> None"
  then obtain v2 where v: "oob_v2OutOfBandInvitation r = Some v2" by auto
  from acceptInvitation_v2 [OF assms(1) v, of env cfg] assms(2)
  have e: "res = Inr (r, env_v2Connection env)"
    and w': "w' = w\<lparr>w_log := w_log w @ [V2InvitationAccepted (v2_id v2)]\<rparr>"
    by simp_all
  from w' show "w_records w' = w_records w" by simp
  from w' show "\<exists>v2. w_log w' = w_log w @ [V2InvitationAccepted v2]" by simp
  from e show "res = Inr (r, env_v2Connection env)" .
qed

theorem C1_state_updated_before_branching_witness:
  "find (\<lambda>x. oob_id x = ''oob'')
     (w_records (exampleWorld [exampleRecord (exampleInvitation (Some [''https://unsupported'']) None [])] []))
     = Some (exampleRecord (exampleInvitation (Some [''https://unsupported'']) None [])) \<and>
   fst (acceptInvitation exampleEnv ''oob'' noAcceptConfig
     (exampleWorld [exampleRecord (exampleInvitation (Some [''https://unsupported'']) None [])] []))
     = Inl HandshakeProtocolsNotSupported \<and>
   find (\<lambda>x. oob_id x = ''oob'')
     (w_records (snd (acceptInvitation exampleEnv ''oob'' noAcceptConfig
        (exampleWorld [exampleRecord (exampleInvitation (Some [''https://unsupported'']) None [])] []))))
     = Some ((exampleRecord (exampleInvitation (Some [''https://unsupported'']) None []))
               \<lparr>oob_state := PrepareResponse\<rparr>)"
proof -
  let ?r = "exampleRecord (exampleInvitation (Some [''https://unsupported'']) None [])"
  let ?w = "exampleWorld [?r] []"
  have f: "find (\<lambda>x. oob_id x = ''oob'') (w_records ?w) = Some ?r"
    by (simp add: exampleWorld_def exampleRecord_def)
  have v: "oob_v2OutOfBandInvitation ?r = None \<and> oob_outOfBandInvitation ?r \<noteq> None"
    by (simp add: exampleRecord_def)
  have s: "getSupportedHandshakeProtocols exampleEnv =
     Inr [''https://didcomm.org/didexchange/1.0'', ''https://didcomm.org/connections/1.0'']"
    by (simp add: getSupportedHandshakeProtocols_def exampleEnv_def handshakeMessageFamilies_def)
  have e: "fst (acceptInvitation exampleEnv ''oob'' noAcceptConfig ?w) = Inl HandshakeProtocolsNotSupported"
    by (simp add: accept_defs example_defs getFirstSupportedProtocol_def s)
  from C1_state_updated_before_branching [OF f, of exampleEnv noAcceptConfig
      "fst (acceptInvitation exampleEnv ''oob'' noAcceptConfig ?w)"
      "snd (acceptInvitation exampleEnv ''oob'' noAcceptConfig ?w)"] v
  have "find (\<lambda>x. oob_id x = ''oob'')
          (w_records (snd (acceptInvitation exampleEnv ''oob'' noAcceptConfig ?w)))
        = Some (?r\<lparr>oob_state := PrepareResponse\<rparr>)"
    by simp
  with f e show ?thesis by simp
qed

text \<open>
  The claim as stated fails for a record holding a v2 invitation: acceptance returns
  with the record still in its initial state, and no state-changed event is emitted.
\<close>

theorem C1_v2_state_not_updated:
  "acceptInvitation exampleEnv ''oob'' noAcceptConfig (exampleWorld [exampleV2Record] [])
     = (Inr (exampleV2Record, None),
        \<lparr>w_records = [exampleV2Record], w_connections = [],
         w_log = [V2InvitationAccepted ''inv''], w_uuidCount = 0\<rparr>) \<and>
   oob_state exampleV2Record = Initial"
  by (simp add: accept_defs example_defs exampleEnv_simps)

section \<open>Acceptance: delivery of the attached requests\<close>




section \<open>Acceptance: connectionless dispatch\<close>

text \<open>
  C2, as the code has it. Accepting a stored v1 invitation that declares no
  handshake protocols (the field is absent) and has attached requests, when no
  existing connection is found: if the invitation declares no service, the call fails
  with the error that there are no services; otherwise the first request, in the
  order of the list, whose type is locally supported is dispatched, with no
  connection, and none is created; when no request is supported the call fails with
  the error that no message is supported. In each case the state update has been made.
\<close>

theorem C2_connectionless_dispatch:
  assumes "find (\<lambda>x. oob_id x = oid) (w_records w) = Some r"
    and "oob_v2OutOfBandInvitation r = None"
    and "oob_outOfBandInvitation r = Some invitation"
    and "inv_handshakeProtocols invitation = None"
    and "inv_requests invitation = Some ms"
    and "findExistingConnection (findByInvitationDid w) (inv_invitationDids invitation) = None"
  shows "(inv_services invitation = [] \<longrightarrow>
            acceptInvitation env oid cfg w = (Inl NoServices, stateUpdated w r)) \<and>
         (inv_services invitation \<noteq> [] \<and> findSupportedMessage env ms = None \<longrightarrow>
            acceptInvitation env oid cfg w = (Inl NoSupportedMessage, stateUpdated w r)) \<and>
         (\<forall>m. inv_services invitation \<noteq> [] \<and> findSupportedMessage env ms = Some m \<longrightarrow>
            acceptInvitation env oid cfg w =
              (Inr (r\<lparr>oob_state := PrepareResponse\<rparr>, None),
               (stateUpdated w r)\<lparr>w_log := w_log (stateUpdated w r) @ [AgentMessageReceived m None]\<rparr>)) \<and>
         (\<forall>m. findSupportedMessage env ms = Some m \<longleftrightarrow>
            (\<exists>i < length ms. ms ! i = m \<and> isSupportedMessage env m \<and>
               (\<forall>j < i. \<not> isSupportedMessage env (ms ! j)))) \<and>
         w_connections (snd (acceptInvitation env oid cfg w)) = w_connections w"
proof -
  have a: "acceptInvitation env oid cfg w =
             respond env cfg (r\<lparr>oob_state := PrepareResponse\<rparr>) invitation None (stateUpdated w r)"
    using assms by (simp add: acceptInvitation_v1)
  have r: "respond env cfg (r\<lparr>oob_state := PrepareResponse\<rparr>) invitation None (stateUpdated w r) =
     (if inv_services invitation = [] then (Inl NoServices, stateUpdated w r)
      else case findSupportedMessage env ms of
             None \<Rightarrow> (Inl NoSupportedMessage, stateUpdated w r)
           | Some m \<Rightarrow>
               (Inr (r\<lparr>oob_state := PrepareResponse\<rparr>, None),
                (stateUpdated w r)\<lparr>w_log := w_log (stateUpdated w r) @ [AgentMessageReceived m None]\<rparr>))"
    using assms(4,5)
    by (simp add: respond_def Let_def emitWithServices_def thenDo_def throw_def ok_def emit_def
        split: option.splits)
  have f: "\<forall>m. findSupportedMessage env ms = Some m \<longleftrightarrow>
            (\<exists>i < length ms. ms ! i = m \<and> isSupportedMessage env m \<and>
               (\<forall>j < i. \<not> isSupportedMessage env (ms ! j)))"
    by (auto simp: findSupportedMessage_def find_Some_iff)
  have c: "w_connections (snd (acceptInvitation env oid cfg w)) = w_connections w"
    unfolding a r by (simp add: stateUpdated_def split: option.splits)
  have p1: "inv_services invitation = [] \<longrightarrow>
            acceptInvitation env oid cfg w = (Inl NoServices, stateUpdated w r)"
    by (simp add: a r)
  have p2: "inv_services invitation \<noteq> [] \<and> findSupportedMessage env ms = None \<longrightarrow>
            acceptInvitation env oid cfg w = (Inl NoSupportedMessage, stateUpdated w r)"
    by (simp add: a r)
  have p3: "\<forall>m. inv_services invitation \<noteq> [] \<and> findSupportedMessage env ms = Some m \<longrightarrow>
            acceptInvitation env oid cfg w =
              (Inr (r\<lparr>oob_state := PrepareResponse\<rparr>, None),
               (stateUpdated w r)\<lparr>w_log := w_log (stateUpdated w r) @ [AgentMessageReceived m None]\<rparr>)"
    by (simp add: a r)
  show ?thesis by (intro conjI) (rule p1, rule p2, rule p3, rule f, rule c)
qed

theorem C2_connectionless_dispatch_witness:
  "acceptInvitation exampleEnv ''oob'' noAcceptConfig
     (exampleWorld [exampleRecord (exampleInvitation None (Some [unknownRequest, offer]) [DidService ''did:a''])] [])
   = (Inr ((exampleRecord (exampleInvitation None (Some [unknownRequest, offer]) [DidService ''did:a'']))
             \<lparr>oob_state := PrepareResponse\<rparr>, None),
      \<lparr>w_records =
         [(exampleRecord (exampleInvitation None (Some [unknownRequest, offer]) [DidService ''did:a'']))
            \<lparr>oob_state := PrepareResponse\<rparr>],
       w_connections = [],
       w_log = [StateChanged ''oob'' (Some Initial) PrepareResponse, AgentMessageReceived offer None],
       w_uuidCount = 0\<rparr>)"
proof -
  let ?i = "exampleInvitation None (Some [unknownRequest, offer]) [DidService ''did:a'']"
  let ?r = "exampleRecord ?i"
  let ?w = "exampleWorld [?r] []"
  have f: "find (\<lambda>x. oob_id x = ''oob'') (w_records ?w) = Some ?r"
    by (simp add: example_defs)
  have v: "oob_v2OutOfBandInvitation ?r = None" "oob_outOfBandInvitation ?r = Some ?i"
    "inv_handshakeProtocols ?i = None" "inv_requests ?i = Some [unknownRequest, offer]"
    "findExistingConnection (findByInvitationDid ?w) (inv_invitationDids ?i) = None"
    by (simp_all add: example_defs findByInvitationDid_def)
  have s: "inv_services ?i \<noteq> []"
    by (simp add: example_defs)
  have m: "findSupportedMessage exampleEnv [unknownRequest, offer] = Some offer"
    by (simp add: findSupportedMessage_def isSupportedMessage_def exampleEnv_simps example_defs)
  from C2_connectionless_dispatch [OF f v, of exampleEnv noAcceptConfig] s m
  have "acceptInvitation exampleEnv ''oob'' noAcceptConfig ?w =
          (Inr (?r\<lparr>oob_state := PrepareResponse\<rparr>, None),
           (stateUpdated ?w ?r)\<lparr>w_log := w_log (stateUpdated ?w ?r) @ [AgentMessageReceived offer None]\<rparr>)"
    by simp
  then show ?thesis
    by (simp add: stateUpdated_def example_defs)
qed

text \<open>
  The claim as stated fails in two places. With the handshake protocols present as
  an empty list, the test \<open>if (handshakeProtocols)\<close> succeeds and the call takes the
  handshake branch, where no protocol can be selected: nothing is dispatched. With no
  declared service, the call fails for that reason, whether or not a request is
  supported.
\<close>

theorem C2_empty_list_and_no_services:
  "acceptInvitation exampleEnv ''oob'' noAcceptConfig
     (exampleWorld [exampleRecord (exampleInvitation (Some []) (Some [offer]) [DidService ''did:a''])] [])
   = (Inl HandshakeProtocolsNotSupported,
      \<lparr>w_records =
         [(exampleRecord (exampleInvitation (Some []) (Some [offer]) [DidService ''did:a'']))
            \<lparr>oob_state := PrepareResponse\<rparr>],
       w_connections = [],
       w_log = [StateChanged ''oob'' (Some Initial) PrepareResponse],
       w_uuidCount = 0\<rparr>) \<and>
   findSupportedMessage exampleEnv [offer] = Some offer \<and>
   fst (acceptInvitation exampleEnv ''oob'' noAcceptConfig
     (exampleWorld [exampleRecord (exampleInvitation None (Some [unknownRequest]) [])] []))
   = Inl NoServices \<and>
   findSupportedMessage exampleEnv [unknownRequest] = None"
  by (simp add: accept_defs example_defs exampleEnv_simps getFirstSupportedProtocol_def
      exampleEnv_supported)

section \<open>Acceptance: reuse of an existing connection\<close>

lemma firstValueWithin_iff:
  "firstValueWithin due P ns \<longleftrightarrow>
     (\<exists>pre t e post. ns = pre @ (t, NextEvent e) # post \<and> t < due \<and> P e \<and>
        (\<forall>(t', n') \<in> set pre. t' < due \<and> n' \<noteq> StreamComplete))"
proof (induction ns)
  case Nil
  then show ?case by simp
next
  case (Cons x ns)
  obtain t n where x: "x = (t, n)" by (cases x)
  show ?case
  proof (cases "due \<le> t")
    case True
    have "\<not> (\<exists>pre t' e post. x # ns = pre @ (t', NextEvent e) # post \<and> t' < due \<and> P e \<and>
        (\<forall>(t', n') \<in> set pre. t' < due \<and> n' \<noteq> StreamComplete))"
    proof
      assume "\<exists>pre t' e post. x # ns = pre @ (t', NextEvent e) # post \<and> t' < due \<and> P e \<and>
        (\<forall>(t', n') \<in> set pre. t' < due \<and> n' \<noteq> StreamComplete)"
      then obtain pre t' e post where
        d: "x # ns = pre @ (t', NextEvent e) # post" "t' < due"
        "\<forall>(t', n') \<in> set pre. t' < due \<and> n' \<noteq> StreamComplete"
        by blast
      show False
      proof (cases pre)
        case Nil
        with d x True show False by simp
      next
        case (Cons y ys)
        with d x True show False by auto
      qed
    qed
    with True x show ?thesis by simp
  next
    case False
    note inTime = this
    show ?thesis
    proof (cases n)
      case StreamComplete
      have "\<not> (\<exists>pre t' e post. x # ns = pre @ (t', NextEvent e) # post \<and> t' < due \<and> P e \<and>
        (\<forall>(t', n') \<in> set pre. t' < due \<and> n' \<noteq> StreamComplete))"
      proof
        assume "\<exists>pre t' e post. x # ns = pre @ (t', NextEvent e) # post \<and> t' < due \<and> P e \<and>
          (\<forall>(t', n') \<in> set pre. t' < due \<and> n' \<noteq> StreamComplete)"
        then obtain pre t' e post where
          d: "x # ns = pre @ (t', NextEvent e) # post"
          "\<forall>(t', n') \<in> set pre. t' < due \<and> n' \<noteq> StreamComplete"
          by blast
        show False
        proof (cases pre)
          case Nil
          with d x StreamComplete show False by simp
        next
          case (Cons y ys)
          with d x StreamComplete show False by auto
        qed
      qed
      with inTime x StreamComplete show ?thesis by simp
    next
      case (NextEvent e)
      show ?thesis
      proof (cases "P e")
        case True
        have "x # ns = [] @ (t, NextEvent e) # ns" using x NextEvent by simp
        with True inTime have "\<exists>pre t' e' post. x # ns = pre @ (t', NextEvent e') # post \<and> t' < due \<and> P e' \<and>
          (\<forall>(t', n') \<in> set pre. t' < due \<and> n' \<noteq> StreamComplete)"
          by (intro exI [of _ "[]"] exI [of _ t] exI [of _ e] exI [of _ ns]) simp
        with True inTime x NextEvent show ?thesis by simp
      next
        case False
        have "(\<exists>pre t' e' post. x # ns = pre @ (t', NextEvent e') # post \<and> t' < due \<and> P e' \<and>
                (\<forall>(t', n') \<in> set pre. t' < due \<and> n' \<noteq> StreamComplete)) \<longleftrightarrow>
              (\<exists>pre t' e' post. ns = pre @ (t', NextEvent e') # post \<and> t' < due \<and> P e' \<and>
                (\<forall>(t', n') \<in> set pre. t' < due \<and> n' \<noteq> StreamComplete))"
          (is "?L \<longleftrightarrow> ?R")
        proof
          assume ?L
          then obtain pre t' e' post where
            d: "x # ns = pre @ (t', NextEvent e') # post" "t' < due" "P e'"
            "\<forall>(t', n') \<in> set pre. t' < due \<and> n' \<noteq> StreamComplete"
            by blast
          show ?R
          proof (cases pre)
            case Nil
            with d x NextEvent False show ?R by simp
          next
            case (Cons y ys)
            with d have "ns = ys @ (t', NextEvent e') # post"
              and "\<forall>(t', n') \<in> set ys. t' < due \<and> n' \<noteq> StreamComplete"
              by auto
            with d(2,3) show ?R by blast
          qed
        next
          assume ?R
          then obtain pre t' e' post where
            d: "ns = pre @ (t', NextEvent e') # post" "t' < due" "P e'"
            "\<forall>(t', n') \<in> set pre. t' < due \<and> n' \<noteq> StreamComplete"
            by blast
          from d(1) have "x # ns = (x # pre) @ (t', NextEvent e') # post" by simp
          moreover from d(4) x NextEvent inTime
          have "\<forall>(t', n') \<in> set (x # pre). t' < due \<and> n' \<noteq> StreamComplete" by simp
          ultimately show ?L using d(2,3) by blast
        qed
        with Cons.IH False inTime x NextEvent show ?thesis by simp
      qed
    qed
  qed
qed

lemma reuseAcceptedEvent_state:
  "reuseAcceptedEvent env t (r\<lparr>oob_state := s\<rparr>) c = reuseAcceptedEvent env t r c"
proof -
  have "reuseAcceptedPredicate t (r\<lparr>oob_state := s\<rparr>) c = reuseAcceptedPredicate t r c"
    by (rule ext) (simp add: reuseAcceptedPredicate_def)
  then show ?thesis by (simp add: reuseAcceptedEvent_def)
qed

text \<open>
  C3, as the code has it. Acceptance of a stored v1 invitation with handshake
  protocols and no attached requests (the requests are absent), when an existing
  connection is found and reuse is asked for. The reuse message is sent on the existing
  connection, right after the state change. The outcome of the wait is true exactly
  when, among the notifications of the agent's own context, an event whose thread
  identifier, record identifier and connection identifier all match arrives before
  15000 ms, with nothing before it arriving later than that and no completion of the
  stream before it; otherwise it is false, and no error. On true, acceptance returns
  the existing connection and creates none. On false, acceptance goes on to a new
  connection: it is created with the first supported protocol of the invitation, and
  when the invitation has no supported protocol the call fails with that error.
\<close>

theorem C3_reuse_or_new_connection:
  assumes "find (\<lambda>x. oob_id x = oid) (w_records w) = Some r"
    and "oob_v2OutOfBandInvitation r = None"
    and "oob_outOfBandInvitation r = Some invitation"
    and "inv_handshakeProtocols invitation = Some hs"
    and "inv_requests invitation = None"
    and "findExistingConnection (findByInvitationDid w) (inv_invitationDids invitation) = Some existing"
    and "acc_reuseConnection cfg = Some True"
  shows "(reuseAcceptedEvent env (env_reuseThreadId env) r existing \<longleftrightarrow>
            (\<exists>pre t e post.
               filterContextCorrelationId (env_contextCorrelationId env) (env_handshakeReusedEvents env)
                 = pre @ (t, NextEvent e) # post \<and>
               t < 15000 \<and>
               (ev_reuseThreadId e = env_reuseThreadId env \<and> ev_outOfBandRecordId e = oid \<and>
                ev_connectionRecordId e = conn_id existing) \<and>
               (\<forall>(t', n') \<in> set pre. t' < 15000 \<and> n' \<noteq> StreamComplete))) \<and>
         (\<exists>rest. w_log (snd (acceptInvitation env oid cfg w)) =
            w_log w @ StateChanged oid (Some (oob_state r)) PrepareResponse
              # ReuseMessageSent (env_reuseThreadId env) (conn_id existing) # rest) \<and>
         (reuseAcceptedEvent env (env_reuseThreadId env) r existing \<longrightarrow>
            acceptInvitation env oid cfg w =
              (Inr (r\<lparr>oob_state := PrepareResponse\<rparr>, Some existing), reuseAttempted env w r existing)) \<and>
         (\<forall>e. \<not> reuseAcceptedEvent env (env_reuseThreadId env) r existing \<and>
              getFirstSupportedProtocol env hs = Inl e \<longrightarrow>
            acceptInvitation env oid cfg w = (Inl e, reuseAttempted env w r existing)) \<and>
         (\<forall>p. \<not> reuseAcceptedEvent env (env_reuseThreadId env) r existing \<and>
              getFirstSupportedProtocol env hs = Inr p \<longrightarrow>
            (\<exists>created.
               conn_id created = env_uuid env (w_uuidCount w) \<and> conn_protocol created = Some p \<and>
               conn_outOfBandId created = Some oid \<and>
               acceptInvitation env oid cfg w =
                 (Inr (r\<lparr>oob_state := PrepareResponse\<rparr>, Some created),
                  (reuseAttempted env w r existing)
                    \<lparr>w_connections := w_connections w @ [created],
                     w_log := w_log (reuseAttempted env w r existing) @ [ConnectionCreated (conn_id created) p],
                     w_uuidCount := Suc (w_uuidCount w)\<rparr>)))"
proof -
  let ?acc = "reuseAcceptedEvent env (env_reuseThreadId env) r existing"
  let ?r' = "r\<lparr>oob_state := PrepareResponse\<rparr>"
  let ?w2 = "reuseAttempted env w r existing"
  from assms(1) have oid: "oob_id r = oid" by (rule find_oob_id)
  have a: "acceptInvitation env oid cfg w =
             respond env cfg ?r' invitation (Some existing) (stateUpdated w r)"
    using assms by (simp add: acceptInvitation_v1)
  have r: "respond env cfg ?r' invitation (Some existing) (stateUpdated w r) =
     (if ?acc then (Inr (?r', Some existing), ?w2)
      else case getFirstSupportedProtocol env hs of
             Inl e \<Rightarrow> (Inl e, ?w2)
           | Inr p \<Rightarrow>
               (case acceptOutOfBandInvitation env ?r' p ?w2 of
                  (Inl e, w3) \<Rightarrow> (Inl e, w3)
                | (Inr c, w3) \<Rightarrow> (Inr (?r', Some c), w3)))"
    using assms(4,5,7)
    by (simp add: respond_def reuseExistingConnection_def handleHandshakeReuse_def
        createNewConnection_def deliverRequests_def io_defs reuseAcceptedEvent_state
        reuseAttempted_def split: sum.splits prod.splits)
  have p1: "?acc \<longleftrightarrow>
            (\<exists>pre t e post.
               filterContextCorrelationId (env_contextCorrelationId env) (env_handshakeReusedEvents env)
                 = pre @ (t, NextEvent e) # post \<and>
               t < 15000 \<and>
               (ev_reuseThreadId e = env_reuseThreadId env \<and> ev_outOfBandRecordId e = oid \<and>
                ev_connectionRecordId e = conn_id existing) \<and>
               (\<forall>(t', n') \<in> set pre. t' < 15000 \<and> n' \<noteq> StreamComplete))"
    by (simp add: reuseAcceptedEvent_def firstValueWithin_iff reuseAcceptedPredicate_def oid)
  have p3: "?acc \<longrightarrow> acceptInvitation env oid cfg w = (Inr (?r', Some existing), ?w2)"
    by (simp add: a r)
  have p4: "\<forall>e. \<not> ?acc \<and> getFirstSupportedProtocol env hs = Inl e \<longrightarrow>
            acceptInvitation env oid cfg w = (Inl e, ?w2)"
    by (simp add: a r)
  have p5: "\<forall>p. \<not> ?acc \<and> getFirstSupportedProtocol env hs = Inr p \<longrightarrow>
            (\<exists>created.
               conn_id created = env_uuid env (w_uuidCount w) \<and> conn_protocol created = Some p \<and>
               conn_outOfBandId created = Some oid \<and>
               acceptInvitation env oid cfg w =
                 (Inr (?r', Some created),
                  ?w2\<lparr>w_connections := w_connections w @ [created],
                     w_log := w_log ?w2 @ [ConnectionCreated (conn_id created) p],
                     w_uuidCount := Suc (w_uuidCount w)\<rparr>))"
  proof (intro allI impI)
    fix p
    assume h: "\<not> ?acc \<and> getFirstSupportedProtocol env hs = Inr p"
    let ?c = "\<lparr>conn_id = env_uuid env (w_uuidCount w), conn_isReady = env_newConnectionIsReady env,
               conn_outOfBandId = Some oid,
               conn_invitationDid = (case inv_invitationDids invitation of [] \<Rightarrow> None | d # _ \<Rightarrow> Some d),
               conn_protocol = Some p\<rparr>"
    have "acceptInvitation env oid cfg w =
                 (Inr (?r', Some ?c),
                  ?w2\<lparr>w_connections := w_connections w @ [?c],
                     w_log := w_log ?w2 @ [ConnectionCreated (conn_id ?c) p],
                     w_uuidCount := Suc (w_uuidCount w)\<rparr>)"
      unfolding a r using h assms(3)
      by (simp add: acceptOutOfBandInvitation_def Let_def reuseAttempted_def stateUpdated_def oid)
    then show "\<exists>created.
               conn_id created = env_uuid env (w_uuidCount w) \<and> conn_protocol created = Some p \<and>
               conn_outOfBandId created = Some oid \<and>
               acceptInvitation env oid cfg w =
                 (Inr (?r', Some created),
                  ?w2\<lparr>w_connections := w_connections w @ [created],
                     w_log := w_log ?w2 @ [ConnectionCreated (conn_id created) p],
                     w_uuidCount := Suc (w_uuidCount w)\<rparr>)"
      by (intro exI [of _ ?c]) simp
  qed
  have p2: "\<exists>rest. w_log (snd (acceptInvitation env oid cfg w)) =
            w_log w @ StateChanged oid (Some (oob_state r)) PrepareResponse
              # ReuseMessageSent (env_reuseThreadId env) (conn_id existing) # rest"
    unfolding a r
    by (simp add: acceptOutOfBandInvitation_def Let_def reuseAttempted_def stateUpdated_def oid
        split: sum.splits)
  show ?thesis by (intro conjI) (rule p1, rule p2, rule p3, rule p4, rule p5)
qed

theorem C3_reuse_or_new_connection_witness:
  "acceptInvitation answeringEnv ''oob'' (noAcceptConfig\<lparr>acc_reuseConnection := Some True\<rparr>)
     (exampleWorld
        [exampleRecord (exampleInvitation (Some [''https://didcomm.org/didexchange/1.0'']) None [])]
        [exampleConnection True])
   = (Inr ((exampleRecord (exampleInvitation (Some [''https://didcomm.org/didexchange/1.0'']) None []))
             \<lparr>oob_state := PrepareResponse\<rparr>,
           Some (exampleConnection True)),
      reuseAttempted answeringEnv
        (exampleWorld
           [exampleRecord (exampleInvitation (Some [''https://didcomm.org/didexchange/1.0'']) None [])]
           [exampleConnection True])
        (exampleRecord (exampleInvitation (Some [''https://didcomm.org/didexchange/1.0'']) None []))
        (exampleConnection True)) \<and>
   (\<exists>created. conn_id created = ''id-0'' \<and>
      conn_protocol created = Some ''https://didcomm.org/didexchange/1.0'' \<and>
      fst (acceptInvitation exampleEnv ''oob'' (noAcceptConfig\<lparr>acc_reuseConnection := Some True\<rparr>)
        (exampleWorld
           [exampleRecord (exampleInvitation (Some [''https://didcomm.org/didexchange/1.0'']) None [])]
           [exampleConnection True]))
      = Inr ((exampleRecord (exampleInvitation (Some [''https://didcomm.org/didexchange/1.0'']) None []))
               \<lparr>oob_state := PrepareResponse\<rparr>,
             Some created))"
proof -
  let ?i = "exampleInvitation (Some [''https://didcomm.org/didexchange/1.0'']) None []"
  let ?r = "exampleRecord ?i"
  let ?w = "exampleWorld [?r] [exampleConnection True]"
  let ?cfg = "noAcceptConfig\<lparr>acc_reuseConnection := Some True\<rparr>"
  have f: "find (\<lambda>x. oob_id x = ''oob'') (w_records ?w) = Some ?r"
    by (simp add: example_defs)
  have v: "oob_v2OutOfBandInvitation ?r = None" "oob_outOfBandInvitation ?r = Some ?i"
    "inv_handshakeProtocols ?i = Some [''https://didcomm.org/didexchange/1.0'']"
    "inv_requests ?i = None"
    "findExistingConnection (findByInvitationDid ?w) (inv_invitationDids ?i) = Some (exampleConnection True)"
    "acc_reuseConnection ?cfg = Some True"
    by (simp_all add: example_defs findByInvitationDid_def)
  have yes: "reuseAcceptedEvent answeringEnv (env_reuseThreadId answeringEnv) ?r (exampleConnection True)"
    by (simp add: reuseAcceptedEvent_def reuseAcceptedPredicate_def filterContextCorrelationId_def
        answeringEnv_def exampleEnv_simps example_defs)
  have no: "\<not> reuseAcceptedEvent exampleEnv (env_reuseThreadId exampleEnv) ?r (exampleConnection True)"
    by (simp add: reuseAcceptedEvent_def filterContextCorrelationId_def exampleEnv_simps)
  have p: "getFirstSupportedProtocol exampleEnv [''https://didcomm.org/didexchange/1.0'']
             = Inr ''https://didcomm.org/didexchange/1.0''"
    by (simp add: getFirstSupportedProtocol_def exampleEnv_supported)
  note yesCase = C3_reuse_or_new_connection [OF f v, of answeringEnv,
      THEN conjunct2, THEN conjunct2, THEN conjunct1, rule_format]
  note noCase = C3_reuse_or_new_connection [OF f v, of exampleEnv,
      THEN conjunct2, THEN conjunct2, THEN conjunct2, THEN conjunct2, rule_format]
  have a: "acceptInvitation answeringEnv ''oob'' ?cfg ?w
             = (Inr (?r\<lparr>oob_state := PrepareResponse\<rparr>, Some (exampleConnection True)),
                reuseAttempted answeringEnv ?w ?r (exampleConnection True))"
    by (rule yesCase [OF yes])
  from noCase [OF conjI [OF no p]] obtain created where
    c: "conn_id created = env_uuid exampleEnv (w_uuidCount ?w)"
      "conn_protocol created = Some ''https://didcomm.org/didexchange/1.0''"
      "fst (acceptInvitation exampleEnv ''oob'' ?cfg ?w)
         = Inr (?r\<lparr>oob_state := PrepareResponse\<rparr>, Some created)"
    by auto
  from c(1) have "conn_id created = ''id-0''"
    by (simp add: exampleEnv_simps exampleWorld_def)
  with c(2,3) have b: "\<exists>created. conn_id created = ''id-0'' \<and>
      conn_protocol created = Some ''https://didcomm.org/didexchange/1.0'' \<and>
      fst (acceptInvitation exampleEnv ''oob'' ?cfg ?w)
      = Inr (?r\<lparr>oob_state := PrepareResponse\<rparr>, Some created)"
    by blast
  from a b show ?thesis by (rule conjI)
qed

text \<open>
  The claim as stated fails when the reuse is not accepted and the invitation
  declares no protocol the agent supports: no connection is created, the call fails.
\<close>

theorem C3_no_new_connection_without_supported_protocol:
  "acceptInvitation exampleEnv ''oob'' (noAcceptConfig\<lparr>acc_reuseConnection := Some True\<rparr>)
     (exampleWorld
        [exampleRecord (exampleInvitation (Some [''https://unsupported'']) None [])]
        [exampleConnection True])
   = (Inl HandshakeProtocolsNotSupported,
      \<lparr>w_records =
         [(exampleRecord (exampleInvitation (Some [''https://unsupported'']) None []))
            \<lparr>oob_state := PrepareResponse\<rparr>],
       w_connections = [exampleConnection True],
       w_log = [StateChanged ''oob'' (Some Initial) PrepareResponse,
                ReuseMessageSent ''thread'' ''conn''],
       w_uuidCount = 0\<rparr>)"
  by (simp add: accept_defs example_defs exampleEnv_simps getFirstSupportedProtocol_def
      exampleEnv_supported reuseAcceptedEvent_def filterContextCorrelationId_def)

section \<open>Creation\<close>

lemma chooseHandshakeProtocols_fails:
  "isl (chooseHandshakeProtocols env handshake custom) \<longleftrightarrow>
     handshake \<and>
     (getSupportedHandshakeProtocols env = Inl NoHandshakeProtocolSupported \<or>
      (\<exists>c supported. custom = Some c \<and> getSupportedHandshakeProtocols env = Inr supported \<and>
         \<not> set c \<subseteq> set supported))"
proof (cases "getSupportedHandshakeProtocols env")
  case (Inl e)
  then have "e = NoHandshakeProtocolSupported"
    by (auto simp: getSupportedHandshakeProtocols_def Let_def split: if_splits)
  with Inl show ?thesis
    by (simp add: chooseHandshakeProtocols_def assertHandshakeProtocols_def
        areHandshakeProtocolsSupported_def split: option.splits)
next
  case (Inr supported)
  then show ?thesis
    by (auto simp: chooseHandshakeProtocols_def assertHandshakeProtocols_def
        areHandshakeProtocolsSupported_def list_all_iff split: option.splits)
qed

lemmas create_defs =
  createInvitation_def io_defs save_def emitStateChangedEvent_def

text \<open>
  C4, as the code has it. For a v1 configuration, with \<open>handshake\<close> defaulting to
  true, \<open>multiUseInvitation\<close> to false and an empty list of messages counting as no
  messages: creation fails, leaving the store and the event log as they were, when
  handshake is off and there are no messages, when handshake is off and a list of
  handshake protocols is given, and when there are messages and the multi-use flag is
  set. When none of the three holds, creation fails only if handshake is on and either
  the agent supports no handshake protocol at all or the given list has a protocol the
  agent does not support; again nothing is persisted. In every other case the record
  is persisted, as sender, awaiting the response, and the state-changed event follows.
\<close>

theorem C4_create_invitation_checks:
  fixes config :: CreateOutOfBandInvitationConfig
  defines "handshake \<equiv> orElse (cfg_handshake config) True"
    and "messages \<equiv> nonEmptyOrUndefined (cfg_messages config)"
    and "multiUse \<equiv> orElse (cfg_multiUseInvitation config) False"
    and "custom \<equiv> cfg_handshakeProtocols config"
  assumes v1: "cfg_version config \<noteq> Some V2"
  shows "(\<not> handshake \<and> messages = None \<longrightarrow>
            createInvitation env config w = (Inl HandshakeOrRequestsRequired, w)) \<and>
         (\<not> handshake \<and> messages \<noteq> None \<and> custom \<noteq> None \<longrightarrow>
            createInvitation env config w = (Inl HandshakeFalseWithProtocols, w)) \<and>
         (messages \<noteq> None \<and> multiUse \<and> (handshake \<or> custom = None) \<longrightarrow>
            createInvitation env config w = (Inl MultiUseWithMessages, w)) \<and>
         (\<not> (\<not> handshake \<and> messages = None) \<and> \<not> (\<not> handshake \<and> custom \<noteq> None) \<and>
          \<not> (messages \<noteq> None \<and> multiUse) \<longrightarrow>
            (isl (fst (createInvitation env config w)) \<longleftrightarrow>
               handshake \<and>
               (getSupportedHandshakeProtocols env = Inl NoHandshakeProtocolSupported \<or>
                (\<exists>c supported. custom = Some c \<and>
                   getSupportedHandshakeProtocols env = Inr supported \<and>
                   \<not> set c \<subseteq> set supported)))) \<and>
         (isl (fst (createInvitation env config w)) \<longrightarrow> snd (createInvitation env config w) = w) \<and>
         (\<forall>r. fst (createInvitation env config w) = Inr r \<longrightarrow>
            w_records (snd (createInvitation env config w)) = w_records w @ [r] \<and>
            oob_role r = Sender \<and> oob_state r = AwaitResponse \<and>
            w_log (snd (createInvitation env config w)) =
              w_log w @ [RecordSaved (oob_id r), StateChanged (oob_id r) None AwaitResponse])"
proof -
  have p1: "\<not> handshake \<and> messages = None \<longrightarrow>
            createInvitation env config w = (Inl HandshakeOrRequestsRequired, w)"
    using v1 by (simp add: create_defs handshake_def messages_def)
  have p2: "\<not> handshake \<and> messages \<noteq> None \<and> custom \<noteq> None \<longrightarrow>
            createInvitation env config w = (Inl HandshakeFalseWithProtocols, w)"
    using v1 by (auto simp: create_defs handshake_def messages_def custom_def)
  have p3: "messages \<noteq> None \<and> multiUse \<and> (handshake \<or> custom = None) \<longrightarrow>
            createInvitation env config w = (Inl MultiUseWithMessages, w)"
    using v1 by (auto simp: create_defs handshake_def messages_def custom_def multiUse_def)
  have p4: "\<not> (\<not> handshake \<and> messages = None) \<and> \<not> (\<not> handshake \<and> custom \<noteq> None) \<and>
          \<not> (messages \<noteq> None \<and> multiUse) \<longrightarrow>
            (isl (fst (createInvitation env config w)) \<longleftrightarrow>
               isl (chooseHandshakeProtocols env handshake custom))"
    using v1
    by (auto simp: create_defs handshake_def messages_def custom_def multiUse_def
        split: sum.splits)
  have p5: "isl (fst (createInvitation env config w)) \<longrightarrow> snd (createInvitation env config w) = w"
    using v1
    by (auto simp: create_defs split: sum.splits)
  have p6: "\<forall>r. fst (createInvitation env config w) = Inr r \<longrightarrow>
            w_records (snd (createInvitation env config w)) = w_records w @ [r] \<and>
            oob_role r = Sender \<and> oob_state r = AwaitResponse \<and>
            w_log (snd (createInvitation env config w)) =
              w_log w @ [RecordSaved (oob_id r), StateChanged (oob_id r) None AwaitResponse]"
    using v1
    by (auto simp: create_defs split: sum.splits if_splits)
  from p4 have p4': "\<not> (\<not> handshake \<and> messages = None) \<and> \<not> (\<not> handshake \<and> custom \<noteq> None) \<and>
          \<not> (messages \<noteq> None \<and> multiUse) \<longrightarrow>
            (isl (fst (createInvitation env config w)) \<longleftrightarrow>
               handshake \<and>
               (getSupportedHandshakeProtocols env = Inl NoHandshakeProtocolSupported \<or>
                (\<exists>c supported. custom = Some c \<and>
                   getSupportedHandshakeProtocols env = Inr supported \<and>
                   \<not> set c \<subseteq> set supported)))"
    by (simp only: chooseHandshakeProtocols_fails)
  show ?thesis by (intro conjI) (rule p1, rule p2, rule p3, rule p4', rule p5, rule p6)
qed

theorem C4_create_invitation_checks_witness:
  "createInvitation exampleEnv (noCreateConfig\<lparr>cfg_handshake := Some False\<rparr>) (exampleWorld [] [])
     = (Inl HandshakeOrRequestsRequired, exampleWorld [] []) \<and>
   createInvitation exampleEnv
     (noCreateConfig\<lparr>cfg_handshake := Some False, cfg_messages := Some [offer],
        cfg_handshakeProtocols := Some []\<rparr>) (exampleWorld [] [])
     = (Inl HandshakeFalseWithProtocols, exampleWorld [] []) \<and>
   createInvitation exampleEnv
     (noCreateConfig\<lparr>cfg_messages := Some [offer], cfg_multiUseInvitation := Some True\<rparr>)
     (exampleWorld [] [])
     = (Inl MultiUseWithMessages, exampleWorld [] []) \<and>
   \<not> isl (fst (createInvitation exampleEnv noCreateConfig (exampleWorld [] [])))"
proof -
  have v: "cfg_version (noCreateConfig\<lparr>cfg_handshake := Some False\<rparr>) \<noteq> Some V2"
    "cfg_version (noCreateConfig\<lparr>cfg_handshake := Some False, cfg_messages := Some [offer],
        cfg_handshakeProtocols := Some []\<rparr>) \<noteq> Some V2"
    "cfg_version (noCreateConfig\<lparr>cfg_messages := Some [offer], cfg_multiUseInvitation := Some True\<rparr>)
       \<noteq> Some V2"
    "cfg_version noCreateConfig \<noteq> Some V2"
    by (simp_all add: noCreateConfig_def)
  have a: "createInvitation exampleEnv (noCreateConfig\<lparr>cfg_handshake := Some False\<rparr>) (exampleWorld [] [])
     = (Inl HandshakeOrRequestsRequired, exampleWorld [] [])"
    by (rule C4_create_invitation_checks [OF v(1), THEN conjunct1, rule_format])
       (simp add: noCreateConfig_def orElse_def nonEmptyOrUndefined_def)
  have b: "createInvitation exampleEnv
     (noCreateConfig\<lparr>cfg_handshake := Some False, cfg_messages := Some [offer],
        cfg_handshakeProtocols := Some []\<rparr>) (exampleWorld [] [])
     = (Inl HandshakeFalseWithProtocols, exampleWorld [] [])"
    by (rule C4_create_invitation_checks [OF v(2), THEN conjunct2, THEN conjunct1, rule_format])
       (simp add: noCreateConfig_def orElse_def nonEmptyOrUndefined_def)
  have c: "createInvitation exampleEnv
     (noCreateConfig\<lparr>cfg_messages := Some [offer], cfg_multiUseInvitation := Some True\<rparr>)
     (exampleWorld [] [])
     = (Inl MultiUseWithMessages, exampleWorld [] [])"
    by (rule C4_create_invitation_checks [OF v(3), THEN conjunct2, THEN conjunct2, THEN conjunct1,
          rule_format])
       (simp add: noCreateConfig_def orElse_def nonEmptyOrUndefined_def)
  have n: "\<not> (\<not> orElse (cfg_handshake noCreateConfig) True \<and>
              nonEmptyOrUndefined (cfg_messages noCreateConfig) = None) \<and>
           \<not> (\<not> orElse (cfg_handshake noCreateConfig) True \<and>
              cfg_handshakeProtocols noCreateConfig \<noteq> None) \<and>
           \<not> (nonEmptyOrUndefined (cfg_messages noCreateConfig) \<noteq> None \<and>
              orElse (cfg_multiUseInvitation noCreateConfig) False)"
    by (simp add: noCreateConfig_def orElse_def nonEmptyOrUndefined_def)
  have s: "\<not> (orElse (cfg_handshake noCreateConfig) True \<and>
               (getSupportedHandshakeProtocols exampleEnv = Inl NoHandshakeProtocolSupported \<or>
                (\<exists>c supported. cfg_handshakeProtocols noCreateConfig = Some c \<and>
                   getSupportedHandshakeProtocols exampleEnv = Inr supported \<and>
                   \<not> set c \<subseteq> set supported)))"
    by (simp add: noCreateConfig_def exampleEnv_supported)
  from C4_create_invitation_checks [OF v(4), of exampleEnv "exampleWorld [] []",
      THEN conjunct2, THEN conjunct2, THEN conjunct2, THEN conjunct1, rule_format, OF n] s
  have d: "\<not> isl (fst (createInvitation exampleEnv noCreateConfig (exampleWorld [] [])))"
    by blast
  show ?thesis by (intro conjI) (rule a, rule b, rule c, rule d)
qed

text \<open>
  The claim as stated fails for an agent that supports no handshake protocol: the
  default configuration hits none of the three checks and gives no list of its own,
  yet creation fails and nothing is persisted.
\<close>

theorem C4_no_handshake_protocol_supported:
  "cfg_handshake noCreateConfig = None \<and> cfg_handshakeProtocols noCreateConfig = None \<and>
   cfg_messages noCreateConfig = None \<and> cfg_multiUseInvitation noCreateConfig = None \<and>
   cfg_version noCreateConfig = None \<and>
   createInvitation (exampleEnv\<lparr>env_filterSupportedProtocolsByMessageFamilies := (\<lambda>families. [])\<rparr>)
     noCreateConfig (exampleWorld [] [])
   = (Inl NoHandshakeProtocolSupported, exampleWorld [] [])"
  by (simp add: create_defs noCreateConfig_def nonEmptyOrUndefined_def chooseHandshakeProtocols_def
      getSupportedHandshakeProtocols_def)

section \<open>Reception\<close>





end
